theory Spec2Isabelle
  imports Complex_Main
begin

section \<open>Linear interpolation helper\<close>

text \<open>
  \<^verbatim>\<open>pyinterp::detail::math::linear\<close> (detail/math/linear.hpp).  Floating-point
  numbers are idealised as reals; values of the integer axis type of temporal grids are
  embedded into the reals before the subtraction.  The constant is named
  \<open>linear_interp\<close> because \<open>linear\<close> is a constant of the library.  The last line is
  the C++ expression \<^verbatim>\<open>t * y0 + u * y1 / (t + u)\<close> with the precedence of the
  language: the division applies to \<^verbatim>\<open>u * y1\<close> only.
\<close>

definition linear_interp :: "real \<Rightarrow> real \<Rightarrow> real \<Rightarrow> real \<Rightarrow> real \<Rightarrow> real" where
  "linear_interp x x0 x1 y0 y1 =
     (let dx = x1 - x0;
          t = (x1 - x) / dx;
          u = (x - x0) / dx
      in t * y0 + u * y1 / (t + u))"

text \<open>
  The frames read by the spline interpolators.  A two-dimensional frame is kept abstract
  (\<open>'f\<close>); a three-dimensional frame carries the two Z coordinates of the bracket and
  one planar frame per Z index, a four-dimensional frame also the two U coordinates.
\<close>

record 'f xarray3d =
  normalize_angle3 :: "real \<Rightarrow> real"
  z3 :: "nat \<Rightarrow> real"
  xarray_2d3 :: "nat \<Rightarrow> 'f"

record 'f xarray4d =
  normalize_angle4 :: "real \<Rightarrow> real"
  z4 :: "nat \<Rightarrow> real"
  u4 :: "nat \<Rightarrow> real"
  xarray_2d4 :: "nat \<Rightarrow> nat \<Rightarrow> 'f"

text \<open>
  The body of the loop of \<^verbatim>\<open>spline_3d\<close> and \<^verbatim>\<open>spline_4d\<close> for one target,
  once \<^verbatim>\<open>load_frame\<close> has answered: \<open>None\<close> is a frame that could not be loaded,
  and the result \<open>None\<close> is the quiet NaN stored in that case.  \<open>interpolate\<close> is
  \<^verbatim>\<open>Spline2D::interpolate\<close> (GSL), a parameter.
\<close>

definition spline_3d_target ::
  "(real \<Rightarrow> real \<Rightarrow> 'f \<Rightarrow> real) \<Rightarrow> bool \<Rightarrow> 'f xarray3d option \<Rightarrow>
     real \<Rightarrow> real \<Rightarrow> real \<Rightarrow> real option" where
  "spline_3d_target interpolate is_angle loaded xi yi zi =
     (case loaded of
        Some frame \<Rightarrow>
          (let xi' = (if is_angle then normalize_angle3 frame xi else xi);
               z0 = interpolate xi' yi (xarray_2d3 frame 0);
               z1 = interpolate xi' yi (xarray_2d3 frame 1)
           in Some (linear_interp zi (z3 frame 0) (z3 frame 1) z0 z1))
      | None \<Rightarrow> None)"

definition spline_4d_target ::
  "(real \<Rightarrow> real \<Rightarrow> 'f \<Rightarrow> real) \<Rightarrow> bool \<Rightarrow> 'f xarray4d option \<Rightarrow>
     real \<Rightarrow> real \<Rightarrow> real \<Rightarrow> real \<Rightarrow> real option" where
  "spline_4d_target interpolate is_angle loaded xi yi zi ui =
     (case loaded of
        Some frame \<Rightarrow>
          (let xi' = (if is_angle then normalize_angle4 frame xi else xi);
               z00 = interpolate xi' yi (xarray_2d4 frame 0 0);
               z10 = interpolate xi' yi (xarray_2d4 frame 1 0);
               z01 = interpolate xi' yi (xarray_2d4 frame 0 1);
               z11 = interpolate xi' yi (xarray_2d4 frame 1 1)
           in Some (linear_interp ui (u4 frame 0) (u4 frame 1)
                      (linear_interp zi (z4 frame 0) (z4 frame 1) z00 z10)
                      (linear_interp zi (z4 frame 0) (z4 frame 1) z01 z11)))
      | None \<Rightarrow> None)"

text \<open>The textbook formula the helper is compared with.\<close>

definition textbook_linear :: "real \<Rightarrow> real \<Rightarrow> real \<Rightarrow> real \<Rightarrow> real \<Rightarrow> real" where
  "textbook_linear x x0 x1 y0 y1 =
     (x1 - x) / (x1 - x0) * y0 + (x - x0) / (x1 - x0) * y1"

section \<open>Gap filling by Poisson relaxation\<close>

text \<open>
  The grid is an Eigen matrix read and written through the unchecked \<^verbatim>\<open>grid(ix, iy)\<close>
  with signed 64-bit indices: it is a function of two integers here, together with its
  shape \<open>x_size\<close> (rows) and \<open>y_size\<close> (columns); an index the code computes outside
  the shape is read and written where it falls.  The mask
  (\<open>msk\<close>) marks the undefined cells.
\<close>

type_synonym grid = "int \<Rightarrow> int \<Rightarrow> real"
type_synonym mask = "int \<Rightarrow> int \<Rightarrow> bool"

text \<open>The lambda \<^verbatim>\<open>cell_fill\<close>: one relaxation step of a masked cell, in place.\<close>

definition cell_fill ::
  "real \<Rightarrow> int \<Rightarrow> int \<Rightarrow> int \<Rightarrow> int \<Rightarrow> int \<Rightarrow> int \<Rightarrow> grid \<times> real \<Rightarrow> grid \<times> real" where
  "cell_fill relaxation ix0 ix ix1 iy0 iy iy1 = (\<lambda>(grid, max_residual).
     let residual =
           (0.25 * (grid ix0 iy + grid ix1 iy + grid ix iy0 + grid ix iy1) - grid ix iy)
             * relaxation
     in (grid(ix := (grid ix)(iy := grid ix iy + residual)),
         max max_residual \<bar>residual\<bar>))"

text \<open>The body of the loop over \<^verbatim>\<open>iy\<close> in the worker: one strip along the X axis.\<close>

definition fill_strip ::
  "int \<Rightarrow> int \<Rightarrow> mask \<Rightarrow> bool \<Rightarrow> real \<Rightarrow> int \<Rightarrow> grid \<times> real \<Rightarrow> grid \<times> real" where
  "fill_strip x_size y_size msk is_circle relaxation iy st =
     (let iy0 = (if iy = 0 then 1 else iy - 1);
          iy1 = (if iy = y_size - 1 then y_size - 2 else iy + 1);
          st1 = fold (\<lambda>ix s. if msk ix iy
                               then cell_fill relaxation (ix - 1) ix (ix + 1) iy0 iy iy1 s
                               else s)
                  [1..x_size - 2] st;
          st2 = (if msk 0 iy
                 then cell_fill relaxation (if is_circle then x_size - 1 else 1) 0 1
                        iy0 iy iy1 st1
                 else st1)
      in (if msk (x_size - 1) iy
          then cell_fill relaxation (x_size - 2) (x_size - 1)
                 (if is_circle then 0 else x_size - 2) iy0 iy iy1 st2
          else st2))"

text \<open>
  The lambda \<^verbatim>\<open>worker\<close> of \<^verbatim>\<open>poisson_grid_fill\<close>: the strips
  \<open>y_start \<le> iy < y_end\<close>, with the maximum residual of the worker reset to zero
  first.
\<close>

definition poisson_worker ::
  "int \<Rightarrow> int \<Rightarrow> mask \<Rightarrow> bool \<Rightarrow> real \<Rightarrow> int \<Rightarrow> int \<Rightarrow> grid \<Rightarrow> grid \<times> real" where
  "poisson_worker x_size y_size msk is_circle relaxation y_start y_end grid =
     fold (fill_strip x_size y_size msk is_circle relaxation) [y_start..y_end - 1] (grid, 0)"

text \<open>
  The threads of one sweep, each given its pair \<open>(start, end)\<close>.  They are run one after
  the other in the order in which they are launched, which is one of the schedules of
  the C++ program; the list collects \<^verbatim>\<open>max_residuals\<close>.
\<close>

fun run_threads ::
  "(int \<Rightarrow> int \<Rightarrow> grid \<Rightarrow> grid \<times> real) \<Rightarrow> (int \<times> int) list \<Rightarrow> grid \<Rightarrow> grid \<times> real list" where
  "run_threads w [] grid = (grid, [])"
| "run_threads w ((y_start, y_end) # rest) grid =
     (let (grid', r) = w y_start y_end grid;
          (grid'', rs) = run_threads w rest grid'
      in (grid'', r # rs))"

text \<open>\<^verbatim>\<open>*std::max_element\<close> on a vector that is not empty.\<close>

definition max_element :: "real list \<Rightarrow> real" where
  "max_element rs = fold max (tl rs) (hd rs)"

text \<open>
  The ranges handed to the threads when \<open>num_threads \<noteq> 1\<close>: all threads but the last
  one get \<open>shift\<close> strips each, and the last one is launched with the bounds
  \<^verbatim>\<open>start\<close> and \<^verbatim>\<open>y_size - 1\<close>.
\<close>

definition thread_ranges :: "int \<Rightarrow> nat \<Rightarrow> (int \<times> int) list" where
  "thread_ranges y_size num_threads =
     (let shift = y_size div int num_threads
      in map (\<lambda>index. (int index * shift, int index * shift + shift)) [0..<num_threads - 1]
         @ [(int (num_threads - 1) * shift, y_size - 1)])"

text \<open>
  \<^verbatim>\<open>detail::poisson_grid_fill\<close>: one sweep.  With no thread at all the C++ code
  divides by zero and dereferences the end of an empty vector; that is \<open>None\<close>.
\<close>

definition poisson_grid_fill ::
  "int \<Rightarrow> int \<Rightarrow> mask \<Rightarrow> bool \<Rightarrow> real \<Rightarrow> nat \<Rightarrow> grid \<Rightarrow> (grid \<times> real) option" where
  "poisson_grid_fill x_size y_size msk is_circle relaxation num_threads grid =
     (if num_threads = 0 then None
      else if num_threads = 1 then
        (let (grid', r) = poisson_worker x_size y_size msk is_circle relaxation 0 y_size grid
         in Some (grid', max_element [r]))
      else
        (let (grid', rs) = run_threads (poisson_worker x_size y_size msk is_circle relaxation)
                             (thread_ranges y_size num_threads) grid
         in Some (grid', max_element rs)))"

text \<open>
  The grid handed to \<^verbatim>\<open>fill::poisson\<close> holds NaN at its undefined cells: a cell is a
  \<open>real option\<close> with \<open>None\<close> for NaN.
\<close>

type_synonym nan_grid = "int \<Rightarrow> int \<Rightarrow> real option"

datatype FirstGuess = kZero | kZonalAverage

definition hasNaN :: "int \<Rightarrow> int \<Rightarrow> nan_grid \<Rightarrow> bool" where
  "hasNaN x_size y_size grid =
     list_ex (\<lambda>ix. list_ex (\<lambda>iy. grid ix iy = None) [0..y_size - 1]) [0..x_size - 1]"

definition isNaN :: "nan_grid \<Rightarrow> mask" where
  "isNaN grid = (\<lambda>ix iy. grid ix iy = None)"

text \<open>
  The body of the loop over \<^verbatim>\<open>iy\<close> in \<^verbatim>\<open>set_zonal_average\<close>: the mean of the
  defined cells of the band (zero when there is none) replaces its masked cells.  The
  accumulator of Boost is the list of the values given to it.
\<close>

definition zonal_band :: "int \<Rightarrow> mask \<Rightarrow> int \<Rightarrow> nan_grid \<Rightarrow> nan_grid" where
  "zonal_band x_size msk iy grid =
     (let acc = map (\<lambda>ix. the (grid ix iy)) (filter (\<lambda>ix. \<not> msk ix iy) [0..x_size - 1]);
          first_guess = (if length acc \<noteq> 0 then sum_list acc / real (length acc) else 0)
      in fold (\<lambda>ix g. if msk ix iy then g(ix := (g ix)(iy := Some first_guess)) else g)
           [0..x_size - 1] grid)"

text \<open>
  Modelled from the spec: \<^verbatim>\<open>detail::dispatch\<close> (pyinterp/detail/thread.hpp is not among
  the sources) partitions the index range between the workers; each band is computed
  from its own column alone, so the bands are taken in increasing order here.
\<close>

definition set_zonal_average :: "int \<Rightarrow> int \<Rightarrow> mask \<Rightarrow> nan_grid \<Rightarrow> nan_grid" where
  "set_zonal_average x_size y_size msk grid =
     fold (zonal_band x_size msk) [0..y_size - 1] grid"

text \<open>
  The loop of \<^verbatim>\<open>fill::poisson\<close>; the first argument counts the iterations that
  \<^verbatim>\<open>it < max_iterations\<close> still allows.
\<close>

fun poisson_iterate ::
  "(grid \<Rightarrow> (grid \<times> real) option) \<Rightarrow> real \<Rightarrow> nat \<Rightarrow> grid \<Rightarrow> nat \<Rightarrow> real \<Rightarrow>
     (grid \<times> nat \<times> real) option" where
  "poisson_iterate sweep epsilon 0 grid iteration max_residual =
     Some (grid, iteration, max_residual)"
| "poisson_iterate sweep epsilon (Suc n) grid iteration max_residual =
     (case sweep grid of
        None \<Rightarrow> None
      | Some (grid', r) \<Rightarrow>
          if r < epsilon then Some (grid', iteration + 1, r)
          else poisson_iterate sweep epsilon n grid' (iteration + 1) r)"

text \<open>
  \<^verbatim>\<open>fill::poisson\<close>.  \<open>hardware_concurrency\<close> is the answer of
  \<^verbatim>\<open>std::thread::hardware_concurrency()\<close>.  After the first guess every cell of the
  shape is a number, and the relaxation works on numbers.
\<close>

definition initial_guess :: "int \<Rightarrow> int \<Rightarrow> FirstGuess \<Rightarrow> nan_grid \<Rightarrow> nan_grid" where
  "initial_guess x_size y_size first_guess grid =
     (case first_guess of
        kZero \<Rightarrow> (\<lambda>ix iy. if isNaN grid ix iy then Some 0 else grid ix iy)
      | kZonalAverage \<Rightarrow> set_zonal_average x_size y_size (isNaN grid) grid)"

definition numbers :: "nan_grid \<Rightarrow> grid" where
  "numbers grid = (\<lambda>ix iy. the (grid ix iy))"

definition poisson ::
  "nat \<Rightarrow> int \<Rightarrow> int \<Rightarrow> FirstGuess \<Rightarrow> bool \<Rightarrow> nat \<Rightarrow> real \<Rightarrow> real \<Rightarrow> nat \<Rightarrow> nan_grid \<Rightarrow>
     (nan_grid \<times> nat \<times> real) option" where
  "poisson hardware_concurrency x_size y_size first_guess is_circle max_iterations epsilon
       relaxation num_threads grid =
     (if \<not> hasNaN x_size y_size grid then Some (grid, 0, 0)
      else
        (let num_threads' = (if num_threads = 0 then hardware_concurrency else num_threads);
             msk = isNaN grid;
             grid0 = initial_guess x_size y_size first_guess grid
         in map_option
              (\<lambda>(g, iteration, max_residual).
                 (\<lambda>ix iy. Some (g ix iy), iteration, max_residual))
              (poisson_iterate
                 (poisson_grid_fill x_size y_size msk is_circle relaxation num_threads')
                 epsilon max_iterations (numbers grid0) 0 0)))"

text \<open>
  The state after exactly \<open>k\<close> sweeps together with the maximum residual of the last of
  them (\<open>r0\<close> when \<open>k = 0\<close>).
\<close>

fun sweeps ::
  "(grid \<Rightarrow> (grid \<times> real) option) \<Rightarrow> real \<Rightarrow> nat \<Rightarrow> grid \<Rightarrow> (grid \<times> real) option" where
  "sweeps sweep r0 0 grid = Some (grid, r0)"
| "sweeps sweep r0 (Suc k) grid =
     (case sweep grid of None \<Rightarrow> None | Some (grid', r) \<Rightarrow> sweeps sweep r k grid')"

text \<open>The grid of the scenario: ones, and one undefined cell in the last column.\<close>

definition example_mask :: mask where
  "example_mask = (\<lambda>ix iy. ix = 1 \<and> iy = 2)"

definition example_grid :: grid where
  "example_grid = (\<lambda>ix iy. if ix = 1 \<and> iy = 2 then 0 else 1)"

definition example_nan_grid :: nan_grid where
  "example_nan_grid = (\<lambda>ix iy. if ix = 1 \<and> iy = 1 then None else Some 1)"

section \<open>The worker pool\<close>

text \<open>
  Modelled from the spec: \<^verbatim>\<open>detail::dispatch\<close> (pyinterp/detail/thread.hpp is not among
  the sources).  The index range \<open>0 \<le> i < sz\<close> is cut into one contiguous range per
  worker (\<open>num_threads = 0\<close> stands for the number of logical CPUs, one worker runs the
  whole range in the calling thread), and the call returns when every worker has
  finished.  The workers are run here in the order of their ranges.
\<close>

definition dispatch_ranges :: "nat \<Rightarrow> nat \<Rightarrow> nat \<Rightarrow> (nat \<times> nat) list" where
  "dispatch_ranges hardware_concurrency sz num_threads =
     (let n = (if num_threads = 0 then hardware_concurrency else num_threads)
      in if n \<le> 1 then [(0, sz)]
         else map (\<lambda>i. (i * sz div n, Suc i * sz div n)) [0..<n])"

definition dispatch :: "nat \<Rightarrow> (nat \<Rightarrow> nat \<Rightarrow> 's \<Rightarrow> 's) \<Rightarrow> nat \<Rightarrow> nat \<Rightarrow> 's \<Rightarrow> 's" where
  "dispatch hardware_concurrency w sz num_threads =
     fold (\<lambda>(start, end). w start end)
       (dispatch_ranges hardware_concurrency sz num_threads)"

section \<open>Gap filling by LOESS\<close>

text \<open>
  An axis as the gap filler uses it: its number of points and the coordinate read at an
  index by \<^verbatim>\<open>(*grid.x())(ix)\<close>.
\<close>

record axis =
  axis_size :: nat
  coordinate_value :: "int \<Rightarrow> real"

text \<open>
  \<^verbatim>\<open>Grid2D\<close>: two axes and the array read by \<^verbatim>\<open>grid.value(ix, iy)\<close>, NaN being
  \<open>None\<close>.
\<close>

record grid2d =
  grid_x :: axis
  grid_y :: axis
  grid_value :: nan_grid

text \<open>
  The tri-cube weight of a defined sample at the indices \<open>(wx, wy)\<close> of the window of
  the cell with coordinates \<open>(x, y)\<close>.  With a half-window of zero points the C++
  division gives an infinity or NaN, the test \<^verbatim>\<open>d <= 1\<close> is false and the weight is
  zero; that case is written out because division by zero is zero in HOL.
\<close>

definition loess_weight :: "grid2d \<Rightarrow> nat \<Rightarrow> nat \<Rightarrow> real \<Rightarrow> real \<Rightarrow> int \<Rightarrow> int \<Rightarrow> real" where
  "loess_weight grid nx ny x y wx wy =
     (if nx = 0 \<or> ny = 0 then 0
      else
        (let d = sqrt (((coordinate_value (grid_x grid) wx - x) / real nx)\<^sup>2
                     + ((coordinate_value (grid_y grid) wy - y) / real ny)\<^sup>2)
         in if d \<le> 1 then (1 - d ^ 3) ^ 3 else 0))"

text \<open>
  The two nested loops over the frame: the pair \<^verbatim>\<open>(value, weight)\<close> accumulated over
  the samples of the window that are not NaN.
\<close>

definition loess_sums ::
  "grid2d \<Rightarrow> nat \<Rightarrow> nat \<Rightarrow> real \<Rightarrow> real \<Rightarrow> int list \<Rightarrow> int list \<Rightarrow> real \<times> real" where
  "loess_sums grid nx ny x y x_frame y_frame =
     fold (\<lambda>wx. fold (\<lambda>wy (val, weight).
                         case grid_value grid wx wy of
                           None \<Rightarrow> (val, weight)
                         | Some zi \<Rightarrow>
                             (let wi = loess_weight grid nx ny x y wx wy
                              in (val + wi * zi, weight + wi)))
                   y_frame)
       x_frame (0, 0)"

text \<open>
  The value stored for the cell \<open>(ix, iy)\<close>.  \<open>find_indexes\<close> is
  \<^verbatim>\<open>Axis::find_indexes(coordinate, size, Axis::kSym)\<close>, a parameter: the axis class is
  not among the sources.
\<close>

definition loess_cell ::
  "(axis \<Rightarrow> real \<Rightarrow> nat \<Rightarrow> int list) \<Rightarrow> grid2d \<Rightarrow> nat \<Rightarrow> nat \<Rightarrow> nat \<Rightarrow> nat \<Rightarrow> real option" where
  "loess_cell find_indexes grid nx ny ix iy =
     (let x = coordinate_value (grid_x grid) (int ix);
          z = grid_value grid (int ix) (int iy)
      in case z of
           Some v \<Rightarrow> z
         | None \<Rightarrow>
             (let y = coordinate_value (grid_y grid) (int iy);
                  x_frame = find_indexes (grid_x grid) x nx;
                  y_frame = find_indexes (grid_y grid) y ny;
                  (val, weight) = loess_sums grid nx ny x y x_frame y_frame
              in if weight \<noteq> 0 then Some (val / weight) else z))"

text \<open>
  The lambda \<^verbatim>\<open>worker\<close> of \<^verbatim>\<open>fill::loess\<close> writes the rows
  \<open>start \<le> ix < end\<close> of the result, and \<^verbatim>\<open>fill::loess\<close> hands it to the worker
  pool.  The result is a fresh array, \<open>result0\<close> being whatever the allocation holds.
\<close>

definition loess_worker ::
  "(axis \<Rightarrow> real \<Rightarrow> nat \<Rightarrow> int list) \<Rightarrow> grid2d \<Rightarrow> nat \<Rightarrow> nat \<Rightarrow> nat \<Rightarrow> nat \<Rightarrow>
     (nat \<Rightarrow> nat \<Rightarrow> real option) \<Rightarrow> (nat \<Rightarrow> nat \<Rightarrow> real option)" where
  "loess_worker find_indexes grid nx ny start end =
     fold (\<lambda>ix. fold (\<lambda>iy result.
                         result(ix := (result ix)(iy := loess_cell find_indexes grid nx ny ix iy)))
                   [0..<axis_size (grid_y grid)])
       [start..<end]"

definition loess ::
  "nat \<Rightarrow> (axis \<Rightarrow> real \<Rightarrow> nat \<Rightarrow> int list) \<Rightarrow> (nat \<Rightarrow> nat \<Rightarrow> real option) \<Rightarrow>
     grid2d \<Rightarrow> nat \<Rightarrow> nat \<Rightarrow> nat \<Rightarrow> (nat \<Rightarrow> nat \<Rightarrow> real option)" where
  "loess hardware_concurrency find_indexes result0 grid nx ny num_threads =
     dispatch hardware_concurrency (loess_worker find_indexes grid nx ny)
       (axis_size (grid_x grid)) num_threads result0"

text \<open>A grid of two by two points, ten units apart, whose cell \<open>(1, 1)\<close> is undefined.\<close>

definition example_axis :: axis where
  "example_axis = \<lparr>axis_size = 2, coordinate_value = (\<lambda>i. 10 * real_of_int i)\<rparr>"

definition example_grid2d :: grid2d where
  "example_grid2d =
     \<lparr>grid_x = example_axis, grid_y = example_axis,
      grid_value = (\<lambda>ix iy. if ix = 1 \<and> iy = 1 then None else Some 1)\<rparr>"

section \<open>Spline interpolation on a two-dimensional grid\<close>

datatype error = OutOfDomain | InvalidShape | InvalidArgument

datatype FittingModel =
  kLinear | kPolynomial | kCSpline | kCSplinePeriodic | kAkima | kAkimaPeriodic | kSteffen

text \<open>
  Modelled from the spec: \<^verbatim>\<open>load_frame\<close> (the grid sampler is not among the sources)
  reads the window of the target \<open>(xi, yi)\<close> into the frame and answers whether it could.
  \<open>window\<close> stands for the grid, the frame size and the boundary policy: it gives the
  frame of a target, and \<open>None\<close> for a target whose frame cannot be loaded (a target
  outside the domain of an axis that is not circular).  Such a target raises
  \<open>OutOfDomain\<close> when \<open>bounds_error\<close> is set and makes \<^verbatim>\<open>load_frame\<close> answer false
  otherwise.
\<close>

definition load_frame ::
  "(real \<Rightarrow> real \<Rightarrow> 'f option) \<Rightarrow> real \<Rightarrow> real \<Rightarrow> bool \<Rightarrow> error + 'f option" where
  "load_frame window xi yi bounds_error =
     (case window xi yi of
        Some frame \<Rightarrow> Inr (Some frame)
      | None \<Rightarrow> if bounds_error then Inl OutOfDomain else Inr None)"

text \<open>
  The loop of the worker of \<^verbatim>\<open>pyinterp::spline\<close> inside its \<^verbatim>\<open>try\<close> block, over
  the indices it still has to visit: an exception leaves the loop and is handed to the
  \<^verbatim>\<open>catch\<close> clause.  A result element is a double, \<open>None\<close> being NaN.
  \<open>interpolate\<close> is \<^verbatim>\<open>Spline2D::interpolate\<close> for the GSL type of the fitting model
  and \<open>normalize_angle\<close> is \<^verbatim>\<open>frame.normalize_angle\<close>; both are parameters.
\<close>

fun spline_loop ::
  "(real \<Rightarrow> real \<Rightarrow> 'f option) \<Rightarrow> (real \<Rightarrow> real \<Rightarrow> 'f \<Rightarrow> real option) \<Rightarrow> ('f \<Rightarrow> real \<Rightarrow> real) \<Rightarrow>
     bool \<Rightarrow> bool \<Rightarrow> real list \<Rightarrow> real list \<Rightarrow> nat list \<Rightarrow> (nat \<Rightarrow> real option) \<Rightarrow>
     (nat \<Rightarrow> real option) \<times> error option" where
  "spline_loop window interpolate normalize_angle is_angle bounds_error x y [] result =
     (result, None)"
| "spline_loop window interpolate normalize_angle is_angle bounds_error x y (ix # rest) result =
     (let xi = x ! ix; yi = y ! ix
      in case load_frame window xi yi bounds_error of
           Inl e \<Rightarrow> (result, Some e)
         | Inr None \<Rightarrow>
             spline_loop window interpolate normalize_angle is_angle bounds_error x y rest
               (result(ix := None))
         | Inr (Some frame) \<Rightarrow>
             spline_loop window interpolate normalize_angle is_angle bounds_error x y rest
               (result(ix := interpolate (if is_angle then normalize_angle frame xi else xi)
                                yi frame)))"

text \<open>
  The worker: the loop over \<open>start \<le> ix < end\<close>, and the \<^verbatim>\<open>catch\<close> clause that
  stores the exception in the variable \<^verbatim>\<open>except\<close> shared by the workers.
\<close>

definition spline_worker ::
  "(real \<Rightarrow> real \<Rightarrow> 'f option) \<Rightarrow> (real \<Rightarrow> real \<Rightarrow> 'f \<Rightarrow> real option) \<Rightarrow> ('f \<Rightarrow> real \<Rightarrow> real) \<Rightarrow>
     bool \<Rightarrow> bool \<Rightarrow> real list \<Rightarrow> real list \<Rightarrow> nat \<Rightarrow> nat \<Rightarrow>
     (nat \<Rightarrow> real option) \<times> error option \<Rightarrow> (nat \<Rightarrow> real option) \<times> error option" where
  "spline_worker window interpolate normalize_angle is_angle bounds_error x y start end =
     (\<lambda>(result, except).
        case spline_loop window interpolate normalize_angle is_angle bounds_error x y
               [start..<end] result of
          (result', None) \<Rightarrow> (result', except)
        | (result', Some e) \<Rightarrow> (result', Some e))"

text \<open>
  \<^verbatim>\<open>pyinterp::spline\<close>.  The shape check of \<^verbatim>\<open>x\<close> and \<^verbatim>\<open>y\<close> comes first; the
  result array is fresh (\<open>result0\<close> is what the allocation holds); after the workers
  have finished, a stored exception is thrown again.
\<close>

definition spline ::
  "nat \<Rightarrow> (FittingModel \<Rightarrow> real \<Rightarrow> real \<Rightarrow> 'f \<Rightarrow> real option) \<Rightarrow> ('f \<Rightarrow> real \<Rightarrow> real) \<Rightarrow>
     (nat \<Rightarrow> real option) \<Rightarrow> (real \<Rightarrow> real \<Rightarrow> 'f option) \<Rightarrow> bool \<Rightarrow> real list \<Rightarrow> real list \<Rightarrow>
     FittingModel \<Rightarrow> bool \<Rightarrow> nat \<Rightarrow> error + (nat \<Rightarrow> real option)" where
  "spline hardware_concurrency interpolate normalize_angle result0 window is_angle x y
       fitting_model bounds_error num_threads =
     (if length x \<noteq> length y then Inl InvalidShape
      else
        (case dispatch hardware_concurrency
                (spline_worker window (interpolate fitting_model) normalize_angle is_angle
                   bounds_error x y)
                (length x) num_threads (result0, None) of
           (result, None) \<Rightarrow> Inr result
         | (result, Some e) \<Rightarrow> Inl e))"

text \<open>
  A grid whose X axis covers \<open>[0, 1]\<close>: the frame of a target is loaded inside that
  interval only.
\<close>

definition example_window :: "real \<Rightarrow> real \<Rightarrow> unit option" where
  "example_window xi yi = (if 0 \<le> xi \<and> xi \<le> 1 then Some () else None)"

section \<open>Binning on a two-dimensional grid\<close>

text \<open>The coordinates of an axis, in the order of the indices.\<close>

definition axis_points :: "axis \<Rightarrow> real list" where
  "axis_points a = map (\<lambda>i. coordinate_value a (int i)) [0..<axis_size a]"

text \<open>
  Modelled from the spec: \<^verbatim>\<open>Axis::find_index(coordinate, bounded)\<close> (the axis class is
  not among the sources), for an axis that is not circular.  It answers the index of the
  point closest to the coordinate, the lower index on a tie; outside the range of the
  axis it answers \<open>-1\<close> when \<open>bounded\<close> is false and the closest point, which is an end
  of the axis, when \<open>bounded\<close> is true.  An axis without points has no index to answer.
\<close>

definition find_index :: "axis \<Rightarrow> real \<Rightarrow> bool \<Rightarrow> int" where
  "find_index a x bounded =
     (let pts = axis_points a
      in if pts = [] then - 1
         else if \<not> bounded \<and> (x < fold min pts (hd pts) \<or> fold max pts (hd pts) < x) then - 1
         else int (arg_min_list (\<lambda>i. \<bar>x - pts ! i\<bar>) [0..<length pts]))"

text \<open>
  The accumulators of \<^verbatim>\<open>NearestBivariate\<close>: the statistics of a bin are functions of
  the samples it was given, so a bin is the list of its samples, in the order of
  arrival.
\<close>

type_synonym bins = "int \<Rightarrow> int \<Rightarrow> real list"

definition empty_bins :: bins where
  "empty_bins = (\<lambda>ix iy. [])"

text \<open>
  The body of the loop of \<^verbatim>\<open>NearestBivariate::push\<close> for the sample \<open>(x, y, z)\<close>;
  \<open>z = None\<close> is a NaN.  The lookup of the axes is a parameter here.
\<close>

definition push_sample ::
  "(axis \<Rightarrow> real \<Rightarrow> bool \<Rightarrow> int) \<Rightarrow> axis \<Rightarrow> axis \<Rightarrow> real \<times> real \<times> real option \<Rightarrow> bins \<Rightarrow> bins" where
  "push_sample lookup x_axis y_axis = (\<lambda>(x, y, z) acc.
     let ix = lookup x_axis x True;
         iy = lookup y_axis y True
     in if ix \<noteq> - 1 \<and> iy \<noteq> - 1
        then (case z of
                Some v \<Rightarrow> acc(ix := (acc ix)(iy := acc ix iy @ [v]))
              | None \<Rightarrow> acc)
        else acc)"

text \<open>
  \<^verbatim>\<open>NearestBivariate::push\<close>: the shape check of the three arrays, then the loop over
  the samples.
\<close>

definition push ::
  "(axis \<Rightarrow> real \<Rightarrow> bool \<Rightarrow> int) \<Rightarrow> axis \<Rightarrow> axis \<Rightarrow> real list \<Rightarrow> real list \<Rightarrow>
     real option list \<Rightarrow> bins \<Rightarrow> error + bins" where
  "push lookup x_axis y_axis x y z acc =
     (if length x \<noteq> length y \<or> length x \<noteq> length z then Inl InvalidShape
      else Inr (fold (\<lambda>idx. push_sample lookup x_axis y_axis (x ! idx, y ! idx, z ! idx))
                  [0..<length x] acc))"

section \<open>The geodetic R-tree\<close>

text \<open>
  A point is a triple of coordinates: longitude, latitude and altitude for
  \<^verbatim>\<open>EquatorialPoint3D\<close>, Cartesian coordinates for \<^verbatim>\<open>Point3D\<close>.  The base class
  \<^verbatim>\<open>geometry::RTree\<close> keeps pairs of a Cartesian point and a value; the content of the
  tree is the list of these pairs.
\<close>

type_synonym point3 = "real \<times> real \<times> real"
type_synonym 'v rtree = "(point3 \<times> 'v) list"

text \<open>
  The members \<^verbatim>\<open>coordinates_\<close> and \<^verbatim>\<open>strategy_\<close> of the geodetic tree: the two
  conversions of the geodetic system and the distance between two geodetic points
  (haversine on the sphere of the semi-major axis).  They are parameters.
\<close>

record geodetic =
  lla_to_ecef :: "point3 \<Rightarrow> point3"
  ecef_to_lla :: "point3 \<Rightarrow> point3"
  strategy :: "point3 \<Rightarrow> point3 \<Rightarrow> real"

text \<open>
  The query \<^verbatim>\<open>boost::geometry::index::nearest(p, k)\<close> of the library: the \<open>k\<close> items
  closest to \<open>p\<close> in the Cartesian metric, nearest first (items at the same distance in
  the order of the content).  The comparable distance is the squared Euclidean one.
\<close>

definition comparable_distance :: "point3 \<Rightarrow> point3 \<Rightarrow> real" where
  "comparable_distance p q =
     (case p of (x0, y0, z0) \<Rightarrow> case q of (x1, y1, z1) \<Rightarrow>
        (x0 - x1)\<^sup>2 + (y0 - y1)\<^sup>2 + (z0 - z1)\<^sup>2)"

definition nearest :: "point3 \<Rightarrow> nat \<Rightarrow> 'v rtree \<Rightarrow> (point3 \<times> 'v) list" where
  "nearest p k tree = take k (sort_key (\<lambda>item. comparable_distance p (fst item)) tree)"

text \<open>\<^verbatim>\<open>RTree::query(point, k)\<close>: the \<open>k\<close> nearest neighbours of one point.\<close>

definition query :: "geodetic \<Rightarrow> 'v rtree \<Rightarrow> point3 \<Rightarrow> nat \<Rightarrow> (real \<times> 'v) list" where
  "query g tree point k =
     fold (\<lambda>item result.
             result @ [(strategy g point (ecef_to_lla g (fst item)), snd item)])
       (nearest (lla_to_ecef g point) k tree) []"

text \<open>
  \<^verbatim>\<open>RTree::query_ball\<close>: the query \<^verbatim>\<open>satisfies\<close> of the library visits the items for
  which the predicate holds.
\<close>

definition query_ball :: "geodetic \<Rightarrow> 'v rtree \<Rightarrow> point3 \<Rightarrow> real \<Rightarrow> (real \<times> 'v) list" where
  "query_ball g tree point radius =
     fold (\<lambda>item result.
             result @ [(strategy g point (ecef_to_lla g (fst item)), snd item)])
       (filter (\<lambda>item. strategy g (ecef_to_lla g (fst item)) point < radius) tree) []"

text \<open>
  \<^verbatim>\<open>return_envelope\<close> of a multi-point into a box, and \<^verbatim>\<open>covered_by\<close> a box (the
  border included), both of the library.  A box is its minimum and maximum corners; the
  envelope of no point at all is the inverted infinite box, which covers nothing: it is
  \<open>None\<close>.
\<close>

definition expand :: "point3 \<Rightarrow> point3 \<times> point3 \<Rightarrow> point3 \<times> point3" where
  "expand p box =
     (case p of (x, y, z) \<Rightarrow> case box of ((x0, y0, z0), (x1, y1, z1)) \<Rightarrow>
        ((min x0 x, min y0 y, min z0 z), (max x1 x, max y1 y, max z1 z)))"

definition return_envelope :: "point3 list \<Rightarrow> (point3 \<times> point3) option" where
  "return_envelope pts = (case pts of [] \<Rightarrow> None | p # ps \<Rightarrow> Some (fold expand ps (p, p)))"

definition covered_by :: "point3 \<Rightarrow> (point3 \<times> point3) option \<Rightarrow> bool" where
  "covered_by p box =
     (case box of
        None \<Rightarrow> False
      | Some ((x0, y0, z0), (x1, y1, z1)) \<Rightarrow>
          (case p of (x, y, z) \<Rightarrow> x0 \<le> x \<and> x \<le> x1 \<and> y0 \<le> y \<and> y \<le> y1 \<and> z0 \<le> z \<and> z \<le> z1))"

text \<open>\<^verbatim>\<open>RTree::query_within\<close>.\<close>

definition query_within :: "geodetic \<Rightarrow> 'v rtree \<Rightarrow> point3 \<Rightarrow> nat \<Rightarrow> (real \<times> 'v) list" where
  "query_within g tree point k =
     (let (ecef, result) =
            fold (\<lambda>item (ecef, result).
                    (ecef @ [fst item],
                     result @ [(strategy g point (ecef_to_lla g (fst item)), snd item)]))
              (nearest (lla_to_ecef g point) k tree) ([], [])
      in if \<not> covered_by (lla_to_ecef g point) (return_envelope ecef) then [] else result)"

text \<open>
  The axis-aligned bounding box of a list of Cartesian points, in the words of the
  specification: a point is in it when each of its coordinates lies between the least
  and the greatest value of that coordinate among the points.
\<close>

definition in_bounding_box :: "point3 \<Rightarrow> point3 list \<Rightarrow> bool" where
  "in_bounding_box p pts =
     (pts \<noteq> []
      \<and> Min (set (map fst pts)) \<le> fst p \<and> fst p \<le> Max (set (map fst pts))
      \<and> Min (set (map (fst \<circ> snd) pts)) \<le> fst (snd p)
      \<and> fst (snd p) \<le> Max (set (map (fst \<circ> snd) pts))
      \<and> Min (set (map (snd \<circ> snd) pts)) \<le> snd (snd p)
      \<and> snd (snd p) \<le> Max (set (map (snd \<circ> snd) pts)))"

text \<open>
  An Eigen matrix of coordinates: its shape and the unchecked read
  \<^verbatim>\<open>coordinates(ix, dim)\<close>.
\<close>

record matrix =
  nrows :: nat
  ncols :: nat
  coeff :: "nat \<Rightarrow> nat \<Rightarrow> real"

text \<open>
  The two loops over \<^verbatim>\<open>dim\<close> that build the geodetic point of a row: the first
  \<open>Dimensions\<close> coordinates come from the matrix, the others are zero.
\<close>

definition row_point :: "nat \<Rightarrow> matrix \<Rightarrow> nat \<Rightarrow> point3" where
  "row_point Dimensions coordinates ix =
     (if 0 < Dimensions then coeff coordinates ix 0 else 0,
      if 1 < Dimensions then coeff coordinates ix 1 else 0,
      if 2 < Dimensions then coeff coordinates ix 2 else 0)"

text \<open>
  The private \<^verbatim>\<open>packing<Dimensions>\<close>: every row becomes the pair of its Cartesian
  point and of its value, and the pairs replace the content of the tree.
\<close>

definition packing_dims :: "geodetic \<Rightarrow> nat \<Rightarrow> matrix \<Rightarrow> 'v list \<Rightarrow> 'v rtree" where
  "packing_dims g Dimensions coordinates vals =
     fold (\<lambda>ix points.
             points @ [(lla_to_ecef g (row_point Dimensions coordinates ix), vals ! ix)])
       [0..<nrows coordinates] []"

text \<open>
  The private \<^verbatim>\<open>insert<Dimensions>\<close>: the base class is called with the Cartesian
  point of the row alone.  \<open>base_insert\<close> is what the base class does with it, a
  parameter; the vector of values is not read.
\<close>

definition insert_dims ::
  "geodetic \<Rightarrow> (point3 \<Rightarrow> 'v rtree \<Rightarrow> 'v rtree) \<Rightarrow> nat \<Rightarrow> matrix \<Rightarrow> 'v list \<Rightarrow> 'v rtree \<Rightarrow> 'v rtree" where
  "insert_dims g base_insert Dimensions coordinates vals tree =
     fold (\<lambda>ix. base_insert (lla_to_ecef g (row_point Dimensions coordinates ix)))
       [0..<nrows coordinates] tree"

text \<open>The public \<^verbatim>\<open>packing\<close> and \<^verbatim>\<open>insert\<close>, with their two checks.\<close>

definition packing :: "geodetic \<Rightarrow> matrix \<Rightarrow> 'v list \<Rightarrow> error + 'v rtree" where
  "packing g coordinates vals =
     (if nrows coordinates \<noteq> length vals then Inl InvalidArgument
      else if ncols coordinates = 2 then Inr (packing_dims g 2 coordinates vals)
      else if ncols coordinates = 3 then Inr (packing_dims g 3 coordinates vals)
      else Inl InvalidArgument)"

definition insert_points ::
  "geodetic \<Rightarrow> (point3 \<Rightarrow> 'v rtree \<Rightarrow> 'v rtree) \<Rightarrow> matrix \<Rightarrow> 'v list \<Rightarrow> 'v rtree \<Rightarrow>
     error + 'v rtree" where
  "insert_points g base_insert coordinates vals tree =
     (if nrows coordinates \<noteq> length vals then Inl InvalidArgument
      else if ncols coordinates = 2 then Inr (insert_dims g base_insert 2 coordinates vals tree)
      else if ncols coordinates = 3 then Inr (insert_dims g base_insert 3 coordinates vals tree)
      else Inl InvalidArgument)"

text \<open>
  The two loops over \<^verbatim>\<open>jx\<close> in the vectorized query, on the row of the target in the
  matrix of distances and in the matrix of values: the neighbours found, then \<open>-1\<close> up
  to \<open>k\<close>.
\<close>

definition fill_row ::
  "(real \<times> real) list \<Rightarrow> nat \<Rightarrow> (nat \<Rightarrow> real) \<times> (nat \<Rightarrow> real) \<Rightarrow> (nat \<Rightarrow> real) \<times> (nat \<Rightarrow> real)" where
  "fill_row neighbors k rows =
     fold (\<lambda>jx (distance, val). (distance(jx := - 1), val(jx := - 1)))
       [length neighbors..<k]
       (fold (\<lambda>jx (distance, val).
                (distance(jx := fst (neighbors ! jx)), val(jx := snd (neighbors ! jx))))
          [0..<length neighbors] rows)"

text \<open>
  The worker of the private \<^verbatim>\<open>query<Dimensions>\<close> on the targets
  \<open>start \<le> ix < stop\<close>; \<open>method\<close> is the query of one point that was selected.
\<close>

definition query_worker ::
  "(point3 \<Rightarrow> nat \<Rightarrow> (real \<times> real) list) \<Rightarrow> nat \<Rightarrow> matrix \<Rightarrow> nat \<Rightarrow> nat \<Rightarrow> nat \<Rightarrow>
     (nat \<Rightarrow> nat \<Rightarrow> real) \<times> (nat \<Rightarrow> nat \<Rightarrow> real) \<Rightarrow> (nat \<Rightarrow> nat \<Rightarrow> real) \<times> (nat \<Rightarrow> nat \<Rightarrow> real)" where
  "query_worker method Dimensions coordinates k start stop =
     fold (\<lambda>ix (distance, val).
             let point = row_point Dimensions coordinates ix;
                 neighbors = method point k;
                 rows = fill_row neighbors k (distance ix, val ix)
             in (distance(ix := fst rows), val(ix := snd rows)))
       [start..<stop]"

text \<open>
  The private \<^verbatim>\<open>query<Dimensions>\<close> and the public \<^verbatim>\<open>query\<close> on a matrix of
  targets.  The two matrices are fresh: \<open>fresh\<close> is what their allocation holds.
\<close>

definition query_dims ::
  "nat \<Rightarrow> geodetic \<Rightarrow> real rtree \<Rightarrow> (nat \<Rightarrow> nat \<Rightarrow> real) \<times> (nat \<Rightarrow> nat \<Rightarrow> real) \<Rightarrow> nat \<Rightarrow>
     matrix \<Rightarrow> nat \<Rightarrow> bool \<Rightarrow> nat \<Rightarrow> (nat \<Rightarrow> nat \<Rightarrow> real) \<times> (nat \<Rightarrow> nat \<Rightarrow> real)" where
  "query_dims hardware_concurrency g tree fresh Dimensions coordinates k within_flag num_threads =
     dispatch hardware_concurrency
       (query_worker (if within_flag then query_within g tree else query g tree)
          Dimensions coordinates k)
       (nrows coordinates) num_threads fresh"

definition query_matrix ::
  "nat \<Rightarrow> geodetic \<Rightarrow> real rtree \<Rightarrow> (nat \<Rightarrow> nat \<Rightarrow> real) \<times> (nat \<Rightarrow> nat \<Rightarrow> real) \<Rightarrow>
     matrix \<Rightarrow> nat \<Rightarrow> bool \<Rightarrow> nat \<Rightarrow> error + (nat \<Rightarrow> nat \<Rightarrow> real) \<times> (nat \<Rightarrow> nat \<Rightarrow> real)" where
  "query_matrix hardware_concurrency g tree fresh coordinates k within_flag num_threads =
     (if ncols coordinates = 2
      then Inr (query_dims hardware_concurrency g tree fresh 2 coordinates k within_flag num_threads)
      else if ncols coordinates = 3
      then Inr (query_dims hardware_concurrency g tree fresh 3 coordinates k within_flag num_threads)
      else Inl InvalidArgument)"

text \<open>
  The haversine distance in metres between two geodetic points given in degrees, on the
  sphere of radius \<open>a\<close>.
\<close>

definition haversine :: "real \<Rightarrow> point3 \<Rightarrow> point3 \<Rightarrow> real" where
  "haversine a p q =
     (case p of (lon1, lat1, alt1) \<Rightarrow> case q of (lon2, lat2, alt2) \<Rightarrow>
        2 * a * arcsin (sqrt ((sin ((lat2 - lat1) * pi / 360))\<^sup>2
                              + cos (lat1 * pi / 180) * cos (lat2 * pi / 180)
                                * (sin ((lon2 - lon1) * pi / 360))\<^sup>2)))"

text \<open>
  A system for the examples: its two conversions are the identity, so that the Cartesian
  points stored are the geodetic triples themselves, and its distance is the haversine
  one on the sphere of the semi-major axis of WGS-84.
\<close>

definition example_system :: geodetic where
  "example_system =
     \<lparr>lla_to_ecef = (\<lambda>p. p), ecef_to_lla = (\<lambda>p. p), strategy = haversine 6378137\<rparr>"

definition example_tree :: "real rtree" where
  "example_tree = [((0, 0, 0), 5), ((2, 2, 2), 6), ((9, 9, 9), 7)]"

definition example_coordinates :: matrix where
  "example_coordinates = \<lparr>nrows = 1, ncols = 2, coeff = (\<lambda>ix dim. 0)\<rparr>"

definition example_targets :: matrix where
  "example_targets =
     \<lparr>nrows = 2, ncols = 3, coeff = (\<lambda>ix dim. if ix = 0 then 1 else 12)\<rparr>"

definition stale :: "(nat \<Rightarrow> nat \<Rightarrow> real) \<times> (nat \<Rightarrow> nat \<Rightarrow> real)" where
  "stale = (\<lambda>ix jx. 42, \<lambda>ix jx. 42)"

section \<open>The linear interpolation helper is the textbook formula\<close>

lemma linear_weights_sum:
  assumes "x0 \<noteq> x1"
  shows "(x1 - x) / (x1 - x0) + (x - x0) / (x1 - x0) = (1::real)"
proof -
  have "(x1 - x) / (x1 - x0) + (x - x0) / (x1 - x0) = ((x1 - x) + (x - x0)) / (x1 - x0)"
    by (simp add: add_divide_distrib [symmetric])
  also have "\<dots> = (x1 - x0) / (x1 - x0)" by simp
  also have "\<dots> = 1" using assms by simp
  finally show ?thesis .
qed

lemma linear_is_textbook:
  assumes "x0 \<noteq> x1"
  shows "linear_interp x x0 x1 y0 y1 = textbook_linear x x0 x1 y0 y1"
  using linear_weights_sum [OF assms, of x]
  by (simp add: linear_interp_def textbook_linear_def Let_def)

text \<open>
  C1.  For \<open>x0 \<noteq> x1\<close> the helper \<open>linear_interp\<close> returns the textbook value
  \<open>t * y0 + u * y1\<close> with \<open>t = (x1 - x) / (x1 - x0)\<close> and \<open>u = (x - x0) / (x1 - x0)\<close>,
  because \<open>t + u = 1\<close>; and the value stored by the trivariate (quadrivariate) spline
  interpolation for a target whose frame was loaded is this linear interpolation in Z
  (in Z, then in U) of the planar spline results.
\<close>

theorem linear_textbook:
  "x0 \<noteq> x1 \<Longrightarrow>
     linear_interp x x0 x1 y0 y1 = (x1 - x) / (x1 - x0) * y0 + (x - x0) / (x1 - x0) * y1
     \<and> (x1 - x) / (x1 - x0) + (x - x0) / (x1 - x0) = 1
     \<and> (z3 fr 0 \<noteq> z3 fr 1 \<longrightarrow>
          spline_3d_target ip ang (Some fr) xi yi zi =
            Some (textbook_linear zi (z3 fr 0) (z3 fr 1)
                    (ip (if ang then normalize_angle3 fr xi else xi) yi (xarray_2d3 fr 0))
                    (ip (if ang then normalize_angle3 fr xi else xi) yi (xarray_2d3 fr 1))))
     \<and> (z4 fq 0 \<noteq> z4 fq 1 \<and> u4 fq 0 \<noteq> u4 fq 1 \<longrightarrow>
          spline_4d_target ip ang (Some fq) xi yi zi ui =
            Some (textbook_linear ui (u4 fq 0) (u4 fq 1)
                    (textbook_linear zi (z4 fq 0) (z4 fq 1)
                       (ip (if ang then normalize_angle4 fq xi else xi) yi (xarray_2d4 fq 0 0))
                       (ip (if ang then normalize_angle4 fq xi else xi) yi (xarray_2d4 fq 1 0)))
                    (textbook_linear zi (z4 fq 0) (z4 fq 1)
                       (ip (if ang then normalize_angle4 fq xi else xi) yi (xarray_2d4 fq 0 1))
                       (ip (if ang then normalize_angle4 fq xi else xi) yi (xarray_2d4 fq 1 1)))))"
  using linear_is_textbook [of x0 x1 x y0 y1] linear_weights_sum [of x0 x1 x]
  by (simp add: textbook_linear_def spline_3d_target_def spline_4d_target_def
      linear_is_textbook Let_def)

theorem linear_textbook_witness:
  "(0::real) \<noteq> 2
     \<and> linear_interp (1/2) 0 2 4 8 = 5
     \<and> spline_3d_target (\<lambda>x y f. f) False
          (Some \<lparr>normalize_angle3 = (\<lambda>a. a), z3 = (\<lambda>i. 2 * real i),
                  xarray_2d3 = (\<lambda>i. 4 + 4 * real i)\<rparr>) 0 0 (1/2) = Some 5"
  using linear_textbook [of 0 2 "1/2" 4 8
      "\<lparr>normalize_angle3 = (\<lambda>a. a), z3 = (\<lambda>i. 2 * real i),
        xarray_2d3 = (\<lambda>i. 4 + 4 * real i)\<rparr>"
      "\<lambda>x y f. f" False 0 0 "1/2"
      "\<lparr>normalize_angle4 = (\<lambda>a. a), z4 = (\<lambda>i. real i), u4 = (\<lambda>i. real i),
        xarray_2d4 = (\<lambda>i j. 0)\<rparr>" 0]
  by (simp add: textbook_linear_def)

section \<open>Properties of the Poisson relaxation\<close>

subsection \<open>One sweep and the number of threads\<close>

text \<open>A worker writes no cell outside its strips.\<close>

lemma cell_fill_column:
  "b \<noteq> iy \<Longrightarrow> fst (cell_fill w ix0 ix ix1 iy0 iy iy1 st) a b = fst st a b"
  by (cases st) (simp add: cell_fill_def Let_def)

lemma fold_cell_fill_column:
  "b \<noteq> iy \<Longrightarrow>
   fst (fold (\<lambda>ix s. if msk ix iy then cell_fill w (ix - 1) ix (ix + 1) iy0 iy iy1 s else s)
          xs st) a b = fst st a b"
  by (induction xs arbitrary: st) (simp_all add: cell_fill_column)

lemma fill_strip_column:
  "b \<noteq> iy \<Longrightarrow> fst (fill_strip x_size y_size msk c w iy st) a b = fst st a b"
  by (simp add: fill_strip_def Let_def cell_fill_column fold_cell_fill_column)

lemma fold_fill_strip_column:
  "b \<notin> set ys \<Longrightarrow>
   fst (fold (fill_strip x_size y_size msk c w) ys st) a b = fst st a b"
  by (induction ys arbitrary: st) (simp_all add: fill_strip_column)

lemma poisson_worker_column:
  "b < y_start \<or> y_end \<le> b \<Longrightarrow>
   fst (poisson_worker x_size y_size msk c w y_start y_end grid) a b = grid a b"
proof -
  assume "b < y_start \<or> y_end \<le> b"
  then have "b \<notin> set [y_start..y_end - 1]" by auto
  then show ?thesis by (simp add: poisson_worker_def fold_fill_strip_column)
qed

lemma run_threads_column:
  "\<forall>(s, e) \<in> set rs. b < s \<or> e \<le> b \<Longrightarrow>
   fst (run_threads (poisson_worker x_size y_size msk c w) rs grid) a b = grid a b"
proof (induction rs arbitrary: grid)
  case Nil
  then show ?case by simp
next
  case (Cons r rs)
  obtain s e where r: "r = (s, e)" by (cases r)
  from Cons.prems r have here: "b < s \<or> e \<le> b" and rest: "\<forall>(s, e) \<in> set rs. b < s \<or> e \<le> b"
    by auto
  obtain g1 r1 where w1: "poisson_worker x_size y_size msk c w s e grid = (g1, r1)"
    by (cases "poisson_worker x_size y_size msk c w s e grid")
  from poisson_worker_column [OF here, of x_size y_size msk c w grid a] w1
  have g1: "g1 a b = grid a b" by simp
  from Cons.IH [OF rest, of g1] g1 w1 r show ?case
    by (simp add: case_prod_beta)
qed

lemma thread_ranges_miss_last:
  assumes "2 \<le> num_threads" and "0 \<le> y_size"
  shows "\<forall>(s, e) \<in> set (thread_ranges y_size num_threads). y_size - 1 < s \<or> e \<le> y_size - 1"
proof -
  define shift where "shift = y_size div int num_threads"
  have T: "0 < int num_threads" using assms by simp
  have nonneg: "0 \<le> shift"
    unfolding shift_def using T assms(2) by (simp add: pos_imp_zdiv_nonneg_iff)
  have "int num_threads * shift + y_size mod int num_threads = y_size"
    unfolding shift_def by (rule mult_div_mod_eq)
  moreover have "0 \<le> y_size mod int num_threads" using T by (rule pos_mod_sign)
  ultimately have below: "int num_threads * shift \<le> y_size" by linarith
  have early: "int i * shift + shift \<le> y_size - 1 \<or> y_size - 1 < int i * shift"
    if "i < num_threads - 1" for i
  proof (cases "0 < shift")
    case True
    have "int i + 1 \<le> int num_threads - 1" using that by linarith
    then have "(int i + 1) * shift \<le> (int num_threads - 1) * shift"
      using True by (simp add: mult_right_mono)
    also have "\<dots> = int num_threads * shift - shift" by (simp add: algebra_simps)
    finally have "(int i + 1) * shift \<le> y_size - shift" using below by simp
    with True show ?thesis by (simp add: algebra_simps)
  next
    case False
    with nonneg have "shift = 0" by simp
    with assms(2) show ?thesis by auto
  qed
  show ?thesis
  proof (intro ballI)
    fix r assume "r \<in> set (thread_ranges y_size num_threads)"
    then consider i where "i < num_threads - 1" "r = (int i * shift, int i * shift + shift)"
      | "r = (int (num_threads - 1) * shift, y_size - 1)"
      by (auto simp: thread_ranges_def shift_def [symmetric] Let_def)
    then show "case r of (s, e) \<Rightarrow> y_size - 1 < s \<or> e \<le> y_size - 1"
    proof cases
      case 1
      with early [of i] show ?thesis by auto
    next
      case 2
      then show ?thesis by simp
    qed
  qed
qed

text \<open>
  With two threads or more, a sweep returns and leaves the last strip of the grid
  untouched, whatever the mask.
\<close>

lemma poisson_grid_fill_skips_last_strip:
  assumes "2 \<le> num_threads" and "0 \<le> y_size"
  shows "\<exists>grid' r. poisson_grid_fill x_size y_size msk is_circle relaxation num_threads grid
                      = Some (grid', r)
           \<and> (\<forall>ix. grid' ix (y_size - 1) = grid ix (y_size - 1))"
proof -
  obtain grid' rs where run:
    "run_threads (poisson_worker x_size y_size msk is_circle relaxation)
       (thread_ranges y_size num_threads) grid = (grid', rs)"
    by (cases "run_threads (poisson_worker x_size y_size msk is_circle relaxation)
                 (thread_ranges y_size num_threads) grid")
  have "grid' ix (y_size - 1) = grid ix (y_size - 1)" for ix
    using run_threads_column [OF thread_ranges_miss_last [OF assms],
        where x_size = x_size and y_size = y_size and msk = msk and c = is_circle and w = relaxation
          and grid = grid and a = ix] run
    by simp
  moreover have "poisson_grid_fill x_size y_size msk is_circle relaxation num_threads grid
                   = Some (grid', max_element rs)"
    using assms(1) run by (simp add: poisson_grid_fill_def)
  ultimately show ?thesis by blast
qed

text \<open>
  C2.  On a grid of three rows and three columns whose only masked cell is in the last
  column, one sweep with two threads leaves the masked cell as it was and reports a zero
  residual, while the sweep with one thread relaxes it: with more than one thread the
  last thread is given the bound \<open>y_size - 1\<close>, so the last strip is never visited.  No
  thread writes a cell in the two-thread sweep of this grid, so the order in which the
  threads run does not matter here.
\<close>

theorem poisson_grid_fill_last_strip:
  "map_option (\<lambda>(g, r). (g 1 2, r))
     (poisson_grid_fill 3 3 example_mask False 1 2 example_grid) = Some (0, 0)
   \<and> map_option (\<lambda>(g, r). (g 1 2, r))
     (poisson_grid_fill 3 3 example_mask False 1 1 example_grid) = Some (1, 1)
   \<and> thread_ranges 3 2 = [(0, 1), (1, 2)]"
  by (simp add: poisson_grid_fill_def poisson_worker_def fill_strip_def cell_fill_def
      example_grid_def example_mask_def max_element_def thread_ranges_def Let_def upto_rec1)

subsection \<open>The relaxation loop\<close>

lemma poisson_iterate_spec:
  assumes "poisson_iterate sweep eps m g i r0 = Some (g', n, r)"
  shows "\<exists>j \<le> m. n = i + j \<and> sweeps sweep r0 j g = Some (g', r)
           \<and> (\<forall>k. 0 < k \<and> k < j \<longrightarrow>
                 (\<exists>gk rk. sweeps sweep r0 k g = Some (gk, rk) \<and> \<not> rk < eps))
           \<and> (j < m \<longrightarrow> 0 < j \<and> r < eps)"
  using assms
proof (induction m arbitrary: g i r0)
  case 0
  then show ?case by simp
next
  case (Suc m)
  from Suc.prems obtain g1 r1 where sw: "sweep g = Some (g1, r1)"
    by (auto split: option.splits)
  show ?case
  proof (cases "r1 < eps")
    case True
    with Suc.prems sw have "g' = g1" "n = i + 1" "r = r1" by simp_all
    with sw True have "1 \<le> Suc m \<and> n = i + 1 \<and> sweeps sweep r0 1 g = Some (g', r)
           \<and> (\<forall>k. 0 < k \<and> k < (1::nat) \<longrightarrow>
                 (\<exists>gk rk. sweeps sweep r0 k g = Some (gk, rk) \<and> \<not> rk < eps))
           \<and> (1 < Suc m \<longrightarrow> 0 < (1::nat) \<and> r < eps)"
      by auto
    then show ?thesis by blast
  next
    case False
    with Suc.prems sw have "poisson_iterate sweep eps m g1 (i + 1) r1 = Some (g', n, r)"
      by simp
    from Suc.IH [OF this] obtain j where j: "j \<le> m" "n = i + 1 + j"
      "sweeps sweep r1 j g1 = Some (g', r)"
      "\<forall>k. 0 < k \<and> k < j \<longrightarrow> (\<exists>gk rk. sweeps sweep r1 k g1 = Some (gk, rk) \<and> \<not> rk < eps)"
      "j < m \<longrightarrow> 0 < j \<and> r < eps"
      by blast
    have mid: "\<exists>gk rk. sweeps sweep r0 k g = Some (gk, rk) \<and> \<not> rk < eps"
      if "0 < k" "k < Suc j" for k
    proof (cases k)
      case 0
      with that show ?thesis by simp
    next
      case (Suc k')
      show ?thesis
      proof (cases "k' = 0")
        case True
        with Suc sw False show ?thesis by simp
      next
        case nz: False
        with Suc that j(4)
        have "\<exists>gk rk. sweeps sweep r1 k' g1 = Some (gk, rk) \<and> \<not> rk < eps"
          by simp
        with Suc sw show ?thesis by simp
      qed
    qed
    have "Suc j \<le> Suc m \<and> n = i + Suc j \<and> sweeps sweep r0 (Suc j) g = Some (g', r)
           \<and> (\<forall>k. 0 < k \<and> k < Suc j \<longrightarrow>
                 (\<exists>gk rk. sweeps sweep r0 k g = Some (gk, rk) \<and> \<not> rk < eps))
           \<and> (Suc j < Suc m \<longrightarrow> 0 < Suc j \<and> r < eps)"
      using j sw mid by simp
    then show ?thesis by blast
  qed
qed

lemma poisson_iterate_total:
  assumes "\<And>g. sweep g \<noteq> None"
  shows "\<exists>res. poisson_iterate sweep eps m g i r0 = Some res"
  using assms by (induction m arbitrary: g i r0) (auto split: option.splits)

lemma poisson_grid_fill_total:
  "0 < num_threads \<Longrightarrow>
     poisson_grid_fill x_size y_size msk is_circle relaxation num_threads g \<noteq> None"
  by (simp add: poisson_grid_fill_def Let_def split: prod.splits)

text \<open>
  C8.  With at least one thread, \<open>poisson\<close> returns: a grid without NaN gives zero
  iterations and a zero residual at once; otherwise the number \<open>n\<close> of sweeps performed
  is at most \<open>max_iterations\<close>, the residual returned is the maximum residual of the
  \<open>n\<close>-th sweep, no earlier sweep had a residual below \<open>epsilon\<close>, and when the loop
  stopped before \<open>max_iterations\<close> the residual of its last sweep is below
  \<open>epsilon\<close>.
\<close>

theorem poisson_terminates:
  assumes "0 < (if num_threads = 0 then hw else num_threads)"
  shows "\<exists>g' n r.
           poisson hw x_size y_size fg is_circle max_iterations eps relaxation num_threads grid
             = Some (g', n, r)
           \<and> n \<le> max_iterations
           \<and> (\<not> hasNaN x_size y_size grid \<longrightarrow> n = 0 \<and> r = 0 \<and> g' = grid)
           \<and> (hasNaN x_size y_size grid \<longrightarrow>
                (\<exists>gn. sweeps
                        (poisson_grid_fill x_size y_size (isNaN grid) is_circle relaxation
                           (if num_threads = 0 then hw else num_threads))
                        0 n (numbers (initial_guess x_size y_size fg grid)) = Some (gn, r)
                      \<and> g' = (\<lambda>ix iy. Some (gn ix iy)))
                \<and> (\<forall>k. 0 < k \<and> k < n \<longrightarrow>
                      (\<exists>gk rk. sweeps
                          (poisson_grid_fill x_size y_size (isNaN grid) is_circle relaxation
                             (if num_threads = 0 then hw else num_threads))
                          0 k (numbers (initial_guess x_size y_size fg grid)) = Some (gk, rk)
                        \<and> \<not> rk < eps))
                \<and> (n < max_iterations \<longrightarrow> 0 < n \<and> r < eps))"
proof (cases "hasNaN x_size y_size grid")
  case False
  then show ?thesis by (simp add: poisson_def)
next
  case True
  define T where "T = (if num_threads = 0 then hw else num_threads)"
  define sweep where "sweep = poisson_grid_fill x_size y_size (isNaN grid) is_circle relaxation T"
  define g0 where "g0 = numbers (initial_guess x_size y_size fg grid)"
  have "0 < T" using assms by (simp add: T_def)
  then have "\<And>g. sweep g \<noteq> None"
    unfolding sweep_def by (rule poisson_grid_fill_total)
  from poisson_iterate_total [where sweep = sweep and eps = eps and m = max_iterations
      and g = g0 and i = 0 and ?r0.0 = 0, OF this]
  obtain gn n r where it: "poisson_iterate sweep eps max_iterations g0 0 0 = Some (gn, n, r)"
    by (metis prod_cases3)
  from poisson_iterate_spec [OF it] obtain j where j: "j \<le> max_iterations" "n = j"
    "sweeps sweep 0 j g0 = Some (gn, r)"
    "\<forall>k. 0 < k \<and> k < j \<longrightarrow> (\<exists>gk rk. sweeps sweep 0 k g0 = Some (gk, rk) \<and> \<not> rk < eps)"
    "j < max_iterations \<longrightarrow> 0 < j \<and> r < eps"
    by auto
  have res: "poisson hw x_size y_size fg is_circle max_iterations eps relaxation num_threads grid
          = Some (\<lambda>ix iy. Some (gn ix iy), n, r)"
    using True it by (simp add: poisson_def Let_def sweep_def g0_def T_def)
  show ?thesis
    using res True j unfolding sweep_def g0_def T_def by auto
qed

theorem poisson_terminates_witness:
  "0 < (if (1::nat) = 0 then 4 else (1::nat)) \<and> hasNaN 3 3 example_nan_grid
     \<and> (\<exists>g' n r. poisson 4 3 3 kZero False 10 (1/1000) 1 1 example_nan_grid = Some (g', n, r)
           \<and> n \<le> 10
           \<and> (\<exists>gn. sweeps (poisson_grid_fill 3 3 (isNaN example_nan_grid) False 1 1)
                       0 n (numbers (initial_guess 3 3 kZero example_nan_grid))
                     = Some (gn, r)))"
proof -
  have h: "0 < (if (1::nat) = 0 then 4 else (1::nat))" by simp
  have n: "hasNaN 3 3 example_nan_grid"
    by (simp add: hasNaN_def example_nan_grid_def upto_rec1)
  from poisson_terminates [where num_threads = 1 and hw = 4 and x_size = 3 and y_size = 3
      and fg = kZero and is_circle = False and max_iterations = 10 and eps = "1/1000"
      and relaxation = 1 and grid = example_nan_grid, OF h] n
  obtain g' n r where
    "poisson 4 3 3 kZero False 10 (1/1000) 1 1 example_nan_grid = Some (g', n, r)"
    "n \<le> 10"
    "\<exists>gn. sweeps (poisson_grid_fill 3 3 (isNaN example_nan_grid) False 1 1)
             0 n (numbers (initial_guess 3 3 kZero example_nan_grid)) = Some (gn, r)"
    by auto
  with h n show ?thesis by blast
qed

section \<open>The worker pool covers the index range\<close>

lemma concat_upt_chain:
  assumes "\<And>i. i < n \<Longrightarrow> f i \<le> f (Suc i)"
  shows "concat (map (\<lambda>i. [f i..<f (Suc i)]) [0..<n]) = [f 0..<f n]"
  using assms
proof (induction n)
  case 0
  then show ?case by simp
next
  case (Suc n)
  have le: "f 0 \<le> f n" using Suc.prems
  proof (induction n)
    case 0 then show ?case by simp
  next
    case (Suc k)
    then have "f 0 \<le> f k" by simp
    also have "f k \<le> f (Suc k)" using Suc.prems by simp
    finally show ?case .
  qed
  have "f n \<le> f (Suc n)" using Suc.prems by simp
  then obtain d where d: "f (Suc n) = f n + d" using le_Suc_ex by blast
  have "[f 0..<f n + d] = [f 0..<f n] @ [f n..<f n + d]"
    using le by (rule upt_add_eq_append)
  with Suc d show ?case by simp
qed

lemma dispatch_ranges_cover:
  "concat (map (\<lambda>(start, end). [start..<end]) (dispatch_ranges hw sz num_threads))
     = [0..<sz]"
proof -
  define n where "n = (if num_threads = 0 then hw else num_threads)"
  show ?thesis
  proof (cases "n \<le> 1")
    case True
    then show ?thesis by (simp add: dispatch_ranges_def n_def Let_def)
  next
    case False
    then have pos: "0 < n" by simp
    have "concat (map (\<lambda>i. [(\<lambda>i. i * sz div n) i..<(\<lambda>i. i * sz div n) (Suc i)]) [0..<n])
            = [(\<lambda>i. i * sz div n) 0..<(\<lambda>i. i * sz div n) n]"
      by (rule concat_upt_chain) (simp add: div_le_mono)
    with pos False show ?thesis
      by (simp add: dispatch_ranges_def n_def [symmetric] Let_def comp_def)
  qed
qed

lemma fold_concat_ranges:
  "fold (\<lambda>(start, end). fold step [start..<end]) rs s
     = fold step (concat (map (\<lambda>(start, end). [start..<end]) rs)) s"
  by (induction rs arbitrary: s) (auto)

lemma dispatch_fold:
  "dispatch hw (\<lambda>start end. fold step [start..<end]) sz num_threads s = fold step [0..<sz] s"
  by (simp add: dispatch_def fold_concat_ranges dispatch_ranges_cover)

section \<open>Properties of the LOESS gap filler\<close>

lemma fold_row_fill:
  "fold (\<lambda>iy result. result(ix := (result ix)(iy := c iy))) ys r
     = r(ix := (\<lambda>iy. if iy \<in> set ys then c iy else r ix iy))"
  by (induction ys arbitrary: r) (auto simp: fun_eq_iff)

lemma fold_rows_fill:
  "fold (\<lambda>ix. fold (\<lambda>iy result. result(ix := (result ix)(iy := c ix iy))) ys) xs r
     = (\<lambda>ix iy. if ix \<in> set xs \<and> iy \<in> set ys then c ix iy else r ix iy)"
  by (induction xs arbitrary: r) (auto simp: fun_eq_iff fold_row_fill)

lemma loess_cells:
  "loess hw fi r0 grid nx ny num_threads
     = (\<lambda>ix iy. if ix < axis_size (grid_x grid) \<and> iy < axis_size (grid_y grid)
                 then loess_cell fi grid nx ny ix iy else r0 ix iy)"
proof -
  have "loess_worker fi grid nx ny
          = (\<lambda>start end. fold (\<lambda>ix. fold (\<lambda>iy result.
                         result(ix := (result ix)(iy := loess_cell fi grid nx ny ix iy)))
                   [0..<axis_size (grid_y grid)]) [start..<end])"
    by (simp add: loess_worker_def fun_eq_iff)
  then show ?thesis
    by (simp add: loess_def dispatch_fold fold_rows_fill)
qed

text \<open>
  C9.  The LOESS gap filler writes a fresh array (the input grid is a value that no
  operation of the model changes), and for every cell of the shape: a cell defined in the
  input has the same value in the output; an undefined cell whose window has a total
  weight of zero stays NaN; so only cells undefined in the input can differ in the
  output.
\<close>

theorem loess_frame:
  "ix < axis_size (grid_x grid) \<Longrightarrow> iy < axis_size (grid_y grid) \<Longrightarrow>
     (grid_value grid (int ix) (int iy) = Some v \<longrightarrow>
        loess hw fi r0 grid nx ny num_threads ix iy = Some v)
     \<and> (grid_value grid (int ix) (int iy) = None \<and>
        snd (loess_sums grid nx ny (coordinate_value (grid_x grid) (int ix))
               (coordinate_value (grid_y grid) (int iy))
               (fi (grid_x grid) (coordinate_value (grid_x grid) (int ix)) nx)
               (fi (grid_y grid) (coordinate_value (grid_y grid) (int iy)) ny)) = 0 \<longrightarrow>
        loess hw fi r0 grid nx ny num_threads ix iy = None)
     \<and> (loess hw fi r0 grid nx ny num_threads ix iy \<noteq> grid_value grid (int ix) (int iy) \<longrightarrow>
        grid_value grid (int ix) (int iy) = None)"
  by (auto simp: loess_cells loess_cell_def Let_def split: option.splits prod.splits)

theorem loess_frame_witness:
  "(1::nat) < axis_size (grid_x example_grid2d) \<and> (0::nat) < axis_size (grid_y example_grid2d)
     \<and> grid_value example_grid2d (int 1) (int 0) = Some 1
     \<and> loess 4 (\<lambda>a x n. [0, 1]) (\<lambda>ix iy. Some 0) example_grid2d 1 1 0 1 0 = Some 1
     \<and> grid_value example_grid2d (int 1) (int 1) = None
     \<and> loess 4 (\<lambda>a x n. [0, 1]) (\<lambda>ix iy. Some 0) example_grid2d 1 1 0 1 1 = None"
proof -
  have x: "(1::nat) < axis_size (grid_x example_grid2d)"
    and y0: "(0::nat) < axis_size (grid_y example_grid2d)"
    and y1: "(1::nat) < axis_size (grid_y example_grid2d)"
    by (simp_all add: example_grid2d_def example_axis_def)
  have v: "grid_value example_grid2d (int 1) (int 0) = Some 1"
    and n: "grid_value example_grid2d (int 1) (int 1) = None"
    by (simp_all add: example_grid2d_def)
  have w: "snd (loess_sums example_grid2d 1 1
               (coordinate_value (grid_x example_grid2d) (int 1))
               (coordinate_value (grid_y example_grid2d) (int 1))
               ((\<lambda>a x n. [0, 1]) (grid_x example_grid2d)
                  (coordinate_value (grid_x example_grid2d) (int 1)) 1)
               ((\<lambda>a x n. [0, 1]) (grid_y example_grid2d)
                  (coordinate_value (grid_y example_grid2d) (int 1)) 1)) = 0"
    by (simp add: loess_sums_def loess_weight_def example_grid2d_def example_axis_def Let_def)
  from loess_frame [OF x y0, of 1 4 "\<lambda>a x n. [0, 1]" "\<lambda>ix iy. Some 0" 1 1 0] v
  have a: "loess 4 (\<lambda>a x n. [0, 1]) (\<lambda>ix iy. Some 0) example_grid2d 1 1 0 1 0 = Some 1"
    by blast
  from loess_frame [OF x y1, of 1 4 "\<lambda>a x n. [0, 1]" "\<lambda>ix iy. Some 0" 1 1 0] n w
  have b: "loess 4 (\<lambda>a x n. [0, 1]) (\<lambda>ix iy. Some 0) example_grid2d 1 1 0 1 1 = None"
    by blast
  from x y0 v a n b show ?thesis by blast
qed

section \<open>Targets outside the domain in the spline interpolation\<close>

lemma spline_loop_no_error:
  "spline_loop window ip na ang False x y idxs result
     = (fold (\<lambda>ix r. r(ix := (case window (x ! ix) (y ! ix) of
                                None \<Rightarrow> None
                              | Some frame \<Rightarrow>
                                  ip (if ang then na frame (x ! ix) else x ! ix) (y ! ix) frame)))
          idxs result, None)"
  by (induction idxs arbitrary: result)
     (auto simp: load_frame_def Let_def split: option.splits)

lemma fold_fill:
  "fold (\<lambda>i r. r(i := c i)) xs r = (\<lambda>i. if i \<in> set xs then c i else r i)"
  by (induction xs arbitrary: r) (auto simp: fun_eq_iff)

lemma fold_fst_state:
  "fold (\<lambda>i (r, e). (step i r, e)) xs (r, e) = (fold step xs r, e)"
  by (induction xs arbitrary: r) auto

lemma spline_loop_error:
  "snd (spline_loop window ip na ang True x y idxs result)
     = (if \<exists>i \<in> set idxs. window (x ! i) (y ! i) = None then Some OutOfDomain else None)"
  by (induction idxs arbitrary: result)
     (auto simp: load_frame_def Let_def split: option.splits)

lemma ex_concat_Cons:
  "(\<exists>i \<in> set (concat (map f (r # rs))). P i)
     \<longleftrightarrow> (\<exists>i \<in> set (f r). P i) \<or> (\<exists>i \<in> set (concat (map f rs)). P i)"
  by auto

lemma spline_workers_error:
  "snd (fold (\<lambda>(start, end). spline_worker window ip na ang True x y start end) rs (result, ex))
     = (if \<exists>i \<in> set (concat (map (\<lambda>(start, end). [start..<end]) rs)).
             window (x ! i) (y ! i) = None
        then Some OutOfDomain else ex)"
proof -
  define f where "f = (\<lambda>(start, end). spline_worker window ip na ang True x y start end)"
  define bad where "bad = (\<lambda>i. window (x ! i) (y ! i) = None)"
  define B where "B = (\<lambda>rs. \<exists>i \<in> set (concat (map (\<lambda>(start, end). [start..<end]) rs)). bad i)"
  have "snd (fold f rs (result, ex)) = (if B rs then Some OutOfDomain else ex)"
  proof (induction rs arbitrary: result ex)
    case Nil
    then show ?case by (simp add: B_def)
  next
    case (Cons range rs)
    obtain s e where range: "range = (s, e)" by (cases range)
    obtain r' e' where loop: "spline_loop window ip na ang True x y [s..<e] result = (r', e')"
      by (cases "spline_loop window ip na ang True x y [s..<e] result")
    from spline_loop_error [of window ip na ang x y "[s..<e]" result] loop
    have e': "e' = (if \<exists>i \<in> set [s..<e]. bad i then Some OutOfDomain else None)"
      by (simp add: bad_def)
    have step: "fold f (range # rs) (result, ex)
            = fold f rs (r', case e' of None \<Rightarrow> ex | Some e \<Rightarrow> Some e)"
      using loop range by (simp add: f_def spline_worker_def split: option.splits)
    have split: "B (range # rs) \<longleftrightarrow> (\<exists>i \<in> set [s..<e]. bad i) \<or> B rs"
      unfolding B_def range by (simp only: ex_concat_Cons prod.case)
    show ?case
    proof (cases "\<exists>i \<in> set [s..<e]. bad i")
      case True
      then have "e' = Some OutOfDomain" using e' by simp
      then have "snd (fold f (range # rs) (result, ex))
                   = (if B rs then Some OutOfDomain else Some OutOfDomain)"
        using step Cons.IH [of r' "Some OutOfDomain"] by simp
      also have "\<dots> = (if B (range # rs) then Some OutOfDomain else ex)"
        using split True by simp
      finally show ?thesis .
    next
      case False
      then have "e' = None" using e' by simp
      then have "snd (fold f (range # rs) (result, ex)) = (if B rs then Some OutOfDomain else ex)"
        using step Cons.IH [of r' ex] by simp
      also have "\<dots> = (if B (range # rs) then Some OutOfDomain else ex)"
        using split False by simp
      finally show ?thesis .
    qed
  qed
  then show ?thesis by (simp only: f_def B_def bad_def)
qed

text \<open>
  C7.  For targets \<open>x\<close>, \<open>y\<close> of the same length: without \<open>bounds_error\<close> the
  two-dimensional spline interpolation returns an array in which every target whose frame
  cannot be loaded is NaN; with \<open>bounds_error\<close>, as soon as one target's frame cannot be
  loaded the call raises \<open>OutOfDomain\<close> and returns no array.
\<close>

theorem spline_bounds_error:
  assumes "length x = length y"
  shows "(\<not> bounds_error \<longrightarrow>
            (\<exists>result. spline hw ip na r0 window ang x y fm bounds_error num_threads = Inr result
               \<and> (\<forall>i < length x. window (x ! i) (y ! i) = None \<longrightarrow> result i = None)))
       \<and> (bounds_error \<and> (\<exists>i < length x. window (x ! i) (y ! i) = None) \<longrightarrow>
            spline hw ip na r0 window ang x y fm bounds_error num_threads = Inl OutOfDomain)"
proof (cases bounds_error)
  case False
  define step where "step = (\<lambda>ix. case window (x ! ix) (y ! ix) of
                                None \<Rightarrow> None
                              | Some frame \<Rightarrow>
                                  ip fm (if ang then na frame (x ! ix) else x ! ix) (y ! ix) frame)"
  have w: "spline_worker window (ip fm) na ang False x y
             = (\<lambda>start end. fold (\<lambda>i (r, e). (r(i := step i), e)) [start..<end])"
    by (auto simp: spline_worker_def spline_loop_no_error fun_eq_iff fold_fst_state step_def)
  have "dispatch hw (spline_worker window (ip fm) na ang False x y) (length x) num_threads
          (r0, None) = (\<lambda>i. if i < length x then step i else r0 i, None)"
    unfolding w by (simp add: dispatch_fold fold_fst_state fold_fill)
  with False assms show ?thesis
    by (auto simp: spline_def step_def)
next
  case True
  show ?thesis
  proof (cases "\<exists>i < length x. window (x ! i) (y ! i) = None")
    case bad: True
    have "snd (dispatch hw (spline_worker window (ip fm) na ang True x y) (length x)
                 num_threads (r0, None)) = Some OutOfDomain"
      using bad by (auto simp: dispatch_def spline_workers_error dispatch_ranges_cover)
    with True assms show ?thesis
      by (auto simp: spline_def split: prod.splits option.splits)
  next
    case False
    with True show ?thesis by blast
  qed
qed

theorem spline_bounds_error_witness:
  "length [1/2, 5::real] = length [0, 0::real]
     \<and> example_window ([1/2, 5] ! 1) ([0, 0] ! 1) = None
     \<and> (\<exists>result. spline 4 (\<lambda>fm x y f. Some x) (\<lambda>f a. a) (\<lambda>i. Some 0) example_window False
                     [1/2, 5] [0, 0] kCSpline False 0 = Inr result \<and> result 1 = None)
     \<and> spline 4 (\<lambda>fm x y f. Some x) (\<lambda>f a. a) (\<lambda>i. Some 0) example_window False
          [1/2, 5] [0, 0] kCSpline True 0 = Inl OutOfDomain"
proof -
  have len: "length [1/2, 5::real] = length [0, 0::real]" by simp
  have bad: "example_window ([1/2, 5] ! 1) ([0, 0] ! 1) = None"
    by (simp add: example_window_def)
  have i: "(1::nat) < length [1/2, 5::real]" by simp
  from spline_bounds_error [OF len, of False 4 "\<lambda>fm x y f. Some x" "\<lambda>f a. a" "\<lambda>i. Some 0"
      example_window False kCSpline 0] i bad
  have a: "\<exists>result. spline 4 (\<lambda>fm x y f. Some x) (\<lambda>f a. a) (\<lambda>i. Some 0) example_window False
                     [1/2, 5] [0, 0] kCSpline False 0 = Inr result \<and> result 1 = None"
    by blast
  from spline_bounds_error [OF len, of True 4 "\<lambda>fm x y f. Some x" "\<lambda>f a. a" "\<lambda>i. Some 0"
      example_window False kCSpline 0] i bad
  have b: "spline 4 (\<lambda>fm x y f. Some x) (\<lambda>f a. a) (\<lambda>i. Some 0) example_window False
          [1/2, 5] [0, 0] kCSpline True 0 = Inl OutOfDomain"
    by blast
  from len bad a b show ?thesis by blast
qed

section \<open>Samples outside the axes in the nearest binning\<close>

lemma find_index_bounded:
  assumes "0 < axis_size a"
  shows "0 \<le> find_index a x True \<and> find_index a x True < int (axis_size a)
         \<and> (\<forall>i < axis_size a.
               \<bar>x - coordinate_value a (find_index a x True)\<bar> \<le> \<bar>x - coordinate_value a (int i)\<bar>)"
proof -
  define pts where "pts = axis_points a"
  define f where "f = (\<lambda>i. \<bar>x - pts ! i\<bar>)"
  define m where "m = arg_min_list f [0..<length pts]"
  have len: "length pts = axis_size a" by (simp add: pts_def axis_points_def)
  with assms have ne: "[0..<length pts] \<noteq> []" by simp
  have fi: "find_index a x True = int m"
    using ne by (simp add: find_index_def pts_def [symmetric] Let_def m_def f_def)
  from arg_min_list_in [OF ne, of f] have m: "m < length pts" by (simp add: m_def)
  have nth: "pts ! i = coordinate_value a (int i)" if "i < axis_size a" for i
    using that by (simp add: pts_def axis_points_def)
  have "f m \<le> f i" if "i < length pts" for i
  proof -
    have "f m = Min (f ` set [0..<length pts])"
      unfolding m_def using ne by (rule f_arg_min_list_f)
    also have "\<dots> \<le> f i" using that by (intro Min_le) auto
    finally show ?thesis .
  qed
  with m len nth fi show ?thesis by (auto simp: f_def)
qed

text \<open>
  C4 as stated fails: a sample at \<open>x = 25\<close>, outside an X axis whose points are \<open>0\<close> and
  \<open>10\<close>, is not dropped by \<open>push\<close>; the bins are not what they were.
\<close>

theorem push_outside_counterexample:
  "coordinate_value example_axis 0 < 25 \<and> coordinate_value example_axis 1 < 25
     \<and> axis_size example_axis = 2
     \<and> push find_index example_axis example_axis [25] [0] [Some 7] empty_bins
          \<noteq> Inr empty_bins"
proof -
  have "push_sample find_index example_axis example_axis (25, 0, Some 7) empty_bins 1 0 = [7]"
    by (simp add: push_sample_def find_index_def axis_points_def example_axis_def
        empty_bins_def Let_def upt_rec)
  moreover have "empty_bins 1 0 = []" by (simp add: empty_bins_def)
  ultimately have "push_sample find_index example_axis example_axis (25, 0, Some 7) empty_bins
                     \<noteq> empty_bins"
    by (metis list.distinct(1))
  then show ?thesis by (simp add: push_def example_axis_def)
qed

text \<open>
  The loop body appends a sample to its bin or leaves the bins alone, and the loop of
  \<open>push\<close> does so for every sample in turn.
\<close>

lemma push_sample_bin:
  assumes "0 < axis_size x_axis" and "0 < axis_size y_axis"
  shows "push_sample find_index x_axis y_axis (a, b, c) acc ix iy
           = acc ix iy @ (if c \<noteq> None \<and> find_index x_axis a True = ix
                              \<and> find_index y_axis b True = iy
                          then [the c] else [])"
  using find_index_bounded [OF assms(1), of a] find_index_bounded [OF assms(2), of b]
  by (cases c) (auto simp: push_sample_def Let_def)

lemma fold_push_sample_bin:
  assumes "0 < axis_size x_axis" and "0 < axis_size y_axis"
  shows "fold (\<lambda>idx. push_sample find_index x_axis y_axis (xs ! idx, ys ! idx, zs ! idx))
           idxs acc ix iy
           = acc ix iy
             @ map (\<lambda>idx. the (zs ! idx))
                 (filter (\<lambda>idx. zs ! idx \<noteq> None \<and> find_index x_axis (xs ! idx) True = ix
                                 \<and> find_index y_axis (ys ! idx) True = iy) idxs)"
proof (induction idxs arbitrary: acc)
  case Nil
  then show ?case by simp
next
  case (Cons idx idxs)
  show ?case
    using Cons.IH [of "push_sample find_index x_axis y_axis (xs ! idx, ys ! idx, zs ! idx) acc"]
      push_sample_bin [OF assms, of "xs ! idx" "ys ! idx" "zs ! idx" acc ix iy]
    by simp
qed

text \<open>
  C4, amended.  \<open>push\<close> looks both coordinates up with \<open>bounded = true\<close>.  On axes with
  at least one point, every call of \<open>push\<close> on three arrays of the same length returns
  bins, and each bin holds what it held followed by the values, in the order of the
  arrays, of exactly those samples whose value is not NaN and whose nearest axis points
  are the ones of the bin.  The index looked up for a coordinate is always an index of
  the axis, of a point nearest to the coordinate (an end of the axis for a coordinate
  outside its range): no sample is dropped for its coordinates, wherever they are, and a
  sample whose value is NaN leaves every bin as it was.  The last three statements are
  the case of one sample.
\<close>

theorem push_nearest_bin:
  assumes "0 < axis_size x_axis" and "0 < axis_size y_axis"
    and "length xs = length ys" and "length xs = length zs"
  shows "(\<exists>acc'. push find_index x_axis y_axis xs ys zs acc = Inr acc'
            \<and> (\<forall>ix iy. acc' ix iy
                  = acc ix iy
                    @ map (\<lambda>idx. the (zs ! idx))
                        (filter (\<lambda>idx. zs ! idx \<noteq> None
                                        \<and> find_index x_axis (xs ! idx) True = ix
                                        \<and> find_index y_axis (ys ! idx) True = iy)
                           [0..<length xs])))
       \<and> (\<forall>idx < length xs.
             0 \<le> find_index x_axis (xs ! idx) True
             \<and> find_index x_axis (xs ! idx) True < int (axis_size x_axis)
             \<and> 0 \<le> find_index y_axis (ys ! idx) True
             \<and> find_index y_axis (ys ! idx) True < int (axis_size y_axis)
             \<and> (\<forall>i < axis_size x_axis.
                   \<bar>xs ! idx - coordinate_value x_axis (find_index x_axis (xs ! idx) True)\<bar>
                     \<le> \<bar>xs ! idx - coordinate_value x_axis (int i)\<bar>)
             \<and> (\<forall>i < axis_size y_axis.
                   \<bar>ys ! idx - coordinate_value y_axis (find_index y_axis (ys ! idx) True)\<bar>
                     \<le> \<bar>ys ! idx - coordinate_value y_axis (int i)\<bar>))
       \<and> 0 \<le> find_index x_axis x True \<and> find_index x_axis x True < int (axis_size x_axis)
       \<and> 0 \<le> find_index y_axis y True \<and> find_index y_axis y True < int (axis_size y_axis)
       \<and> (\<forall>i < axis_size x_axis.
             \<bar>x - coordinate_value x_axis (find_index x_axis x True)\<bar>
               \<le> \<bar>x - coordinate_value x_axis (int i)\<bar>)
       \<and> (\<forall>i < axis_size y_axis.
             \<bar>y - coordinate_value y_axis (find_index y_axis y True)\<bar>
               \<le> \<bar>y - coordinate_value y_axis (int i)\<bar>)
       \<and> push_sample find_index x_axis y_axis (x, y, Some v) acc
           = acc(find_index x_axis x True :=
                   (acc (find_index x_axis x True))
                     (find_index y_axis y True :=
                        acc (find_index x_axis x True) (find_index y_axis y True) @ [v]))
       \<and> push find_index x_axis y_axis [x] [y] [Some v] acc
           = Inr (push_sample find_index x_axis y_axis (x, y, Some v) acc)
       \<and> push find_index x_axis y_axis [x] [y] [None] acc = Inr acc"
proof -
  note fx = find_index_bounded [OF assms(1), of x]
  note fy = find_index_bounded [OF assms(2), of y]
  have ps: "push_sample find_index x_axis y_axis (x, y, Some v) acc
           = acc(find_index x_axis x True :=
                   (acc (find_index x_axis x True))
                     (find_index y_axis y True :=
                        acc (find_index x_axis x True) (find_index y_axis y True) @ [v]))"
    using fx fy by (simp add: push_sample_def Let_def)
  have p1: "push find_index x_axis y_axis [x] [y] [Some v] acc
           = Inr (push_sample find_index x_axis y_axis (x, y, Some v) acc)"
    by (simp add: push_def)
  have p2: "push find_index x_axis y_axis [x] [y] [None] acc = Inr acc"
    by (simp add: push_def push_sample_def Let_def)
  define acc' where
    "acc' = fold (\<lambda>idx. push_sample find_index x_axis y_axis (xs ! idx, ys ! idx, zs ! idx))
              [0..<length xs] acc"
  have call: "push find_index x_axis y_axis xs ys zs acc = Inr acc'"
    using assms(3,4) by (simp add: push_def acc'_def)
  have bins: "\<forall>ix iy. acc' ix iy
                  = acc ix iy
                    @ map (\<lambda>idx. the (zs ! idx))
                        (filter (\<lambda>idx. zs ! idx \<noteq> None
                                        \<and> find_index x_axis (xs ! idx) True = ix
                                        \<and> find_index y_axis (ys ! idx) True = iy)
                           [0..<length xs])"
    unfolding acc'_def using fold_push_sample_bin [OF assms(1,2)] by blast
  have all: "\<forall>idx < length xs.
             0 \<le> find_index x_axis (xs ! idx) True
             \<and> find_index x_axis (xs ! idx) True < int (axis_size x_axis)
             \<and> 0 \<le> find_index y_axis (ys ! idx) True
             \<and> find_index y_axis (ys ! idx) True < int (axis_size y_axis)
             \<and> (\<forall>i < axis_size x_axis.
                   \<bar>xs ! idx - coordinate_value x_axis (find_index x_axis (xs ! idx) True)\<bar>
                     \<le> \<bar>xs ! idx - coordinate_value x_axis (int i)\<bar>)
             \<and> (\<forall>i < axis_size y_axis.
                   \<bar>ys ! idx - coordinate_value y_axis (find_index y_axis (ys ! idx) True)\<bar>
                     \<le> \<bar>ys ! idx - coordinate_value y_axis (int i)\<bar>)"
    using find_index_bounded [OF assms(1)] find_index_bounded [OF assms(2)] by blast
  from call bins have first: "\<exists>acc'. push find_index x_axis y_axis xs ys zs acc = Inr acc'
            \<and> (\<forall>ix iy. acc' ix iy
                  = acc ix iy
                    @ map (\<lambda>idx. the (zs ! idx))
                        (filter (\<lambda>idx. zs ! idx \<noteq> None
                                        \<and> find_index x_axis (xs ! idx) True = ix
                                        \<and> find_index y_axis (ys ! idx) True = iy)
                           [0..<length xs]))"
    by blast
  from first all fx fy ps p1 p2 show ?thesis by blast
qed

text \<open>
  Three samples in one call: two outside the X axis with the values \<open>7\<close> and \<open>9\<close>, and
  one inside it whose value is NaN.
\<close>

theorem push_nearest_bin_witness:
  "0 < axis_size example_axis
     \<and> length [25, 3, 25 :: real] = length [0, 0, 0 :: real]
     \<and> length [25, 3, 25 :: real] = length [Some 7, None, Some (9 :: real)]
     \<and> find_index example_axis 25 True = 1 \<and> find_index example_axis 0 True = 0
     \<and> (\<exists>acc'. push find_index example_axis example_axis [25, 3, 25] [0, 0, 0]
                  [Some 7, None, Some 9] empty_bins = Inr acc'
           \<and> acc' 1 0 = [7, 9] \<and> acc' 0 0 = [])
     \<and> push find_index example_axis example_axis [25] [0] [Some 7] empty_bins
         = Inr (empty_bins(1 := (empty_bins 1)(0 := empty_bins 1 0 @ [7])))"
proof -
  have h: "0 < axis_size example_axis" by (simp add: example_axis_def)
  have l1: "length [25, 3, 25 :: real] = length [0, 0, 0 :: real]"
    and l2: "length [25, 3, 25 :: real] = length [Some 7, None, Some (9 :: real)]"
    by simp_all
  have i: "find_index example_axis 25 True = 1" "find_index example_axis 0 True = 0"
    "find_index example_axis 3 True = 0"
    by (simp_all add: find_index_def axis_points_def example_axis_def Let_def upt_rec)
  note t = push_nearest_bin [OF h h l1 l2, of empty_bins 25 0 7]
  from t obtain acc' where
    call: "push find_index example_axis example_axis [25, 3, 25] [0, 0, 0]
             [Some 7, None, Some 9] empty_bins = Inr acc'"
    and bins: "\<forall>ix iy. acc' ix iy
                  = empty_bins ix iy
                    @ map (\<lambda>idx. the ([Some 7, None, Some (9 :: real)] ! idx))
                        (filter (\<lambda>idx. [Some 7, None, Some (9 :: real)] ! idx \<noteq> None
                                        \<and> find_index example_axis ([25, 3, 25] ! idx) True = ix
                                        \<and> find_index example_axis ([0, 0, 0] ! idx) True = iy)
                           [0..<length [25, 3, 25 :: real]])"
    by blast
  from bins [rule_format, of 1 0] i have b10: "acc' 1 0 = [7, 9]"
    by (simp add: empty_bins_def upt_rec)
  from bins [rule_format, of 0 0] i have b00: "acc' 0 0 = []"
    by (simp add: empty_bins_def upt_rec)
  from t i have one: "push find_index example_axis example_axis [25] [0] [Some 7] empty_bins
         = Inr (empty_bins(1 := (empty_bins 1)(0 := empty_bins 1 0 @ [7])))"
    by simp
  from h l1 l2 i(1,2) call b10 b00 one show ?thesis by blast
qed

section \<open>Properties of the geodetic R-tree\<close>

lemma fold_emplace_back:
  "fold (\<lambda>item result. result @ [f item]) items acc = acc @ map f items"
  by (induction items arbitrary: acc) auto

lemma fold_emplace_back2:
  "fold (\<lambda>item (ecef, result). (ecef @ [f item], result @ [h item])) items (a, b)
     = (a @ map f items, b @ map h items)"
  by (induction items arbitrary: a b) auto

lemma fold_expand:
  "fold expand ps ((x0, y0, z0), (x1, y1, z1))
     = ((fold min (map fst ps) x0, fold min (map (fst \<circ> snd) ps) y0,
         fold min (map (snd \<circ> snd) ps) z0),
        (fold max (map fst ps) x1, fold max (map (fst \<circ> snd) ps) y1,
         fold max (map (snd \<circ> snd) ps) z1))"
  by (induction ps arbitrary: x0 y0 z0 x1 y1 z1) (auto simp: expand_def min.commute max.commute)

lemma covered_by_envelope:
  "covered_by p (return_envelope pts) = in_bounding_box p pts"
proof (cases pts)
  case Nil
  then show ?thesis by (simp add: return_envelope_def covered_by_def in_bounding_box_def)
next
  case (Cons q qs)
  obtain x y z where p: "p = (x, y, z)" by (cases p)
  obtain a b c where q: "q = (a, b, c)" by (cases q)
  show ?thesis
    unfolding Cons p q
    by (simp add: return_envelope_def covered_by_def in_bounding_box_def fold_expand
        Min.set_eq_fold Max.set_eq_fold del: set_simps)
qed

lemma query_map:
  "query g tree point k
     = map (\<lambda>item. (strategy g point (ecef_to_lla g (fst item)), snd item))
         (nearest (lla_to_ecef g point) k tree)"
  by (simp add: query_def fold_emplace_back)

lemma query_within_if:
  "query_within g tree point k
     = (if in_bounding_box (lla_to_ecef g point) (map fst (nearest (lla_to_ecef g point) k tree))
        then query g tree point k else [])"
  by (simp add: query_within_def fold_emplace_back2 covered_by_envelope query_map)

text \<open>
  C6.  \<open>query_within\<close> returns the empty result exactly when the Cartesian point of
  the target is not in the axis-aligned bounding box of the Cartesian points of its
  \<open>k\<close> nearest neighbours, and returns what the plain query of the \<open>k\<close> nearest
  neighbours returns when it is.
\<close>

theorem query_within_envelope:
  "(query_within g tree point k = [] \<longleftrightarrow>
      \<not> in_bounding_box (lla_to_ecef g point) (map fst (nearest (lla_to_ecef g point) k tree)))
   \<and> (in_bounding_box (lla_to_ecef g point) (map fst (nearest (lla_to_ecef g point) k tree)) \<longrightarrow>
        query_within g tree point k = query g tree point k)"
  by (auto simp: query_within_if query_map in_bounding_box_def)

lemma example_target_inside: "in_bounding_box (lla_to_ecef example_system (1, 1, 1))
         (map fst (nearest (lla_to_ecef example_system (1, 1, 1)) 2 example_tree))"
  by (simp add: in_bounding_box_def nearest_def example_tree_def example_system_def
        comparable_distance_def)

lemma example_target_outside: "\<not> in_bounding_box (lla_to_ecef example_system (12, 12, 12))
           (map fst (nearest (lla_to_ecef example_system (12, 12, 12)) 2 example_tree))"
  by (simp add: in_bounding_box_def nearest_def example_tree_def example_system_def
        comparable_distance_def)

theorem query_within_envelope_witness:
  "in_bounding_box (lla_to_ecef example_system (1, 1, 1))
       (map fst (nearest (lla_to_ecef example_system (1, 1, 1)) 2 example_tree))
     \<and> query_within example_system example_tree (1, 1, 1) 2
           = query example_system example_tree (1, 1, 1) 2
     \<and> query_within example_system example_tree (12, 12, 12) 2 = []"
  using query_within_envelope [of example_system example_tree "(1, 1, 1)" 2]
    query_within_envelope [of example_system example_tree "(12, 12, 12)" 2]
    example_target_inside example_target_outside
  by blast

text \<open>
  C5, amended.  \<open>query_ball\<close> returns, in the order of the content of the tree, one
  pair for every stored point whose distance to the target is strictly less than the
  radius, and no other: the pair of the distance between the target and the geodetic
  coordinates of the point, and of the value of the point.
\<close>

theorem query_ball_strict:
  "query_ball g tree point radius
     = map (\<lambda>item. (strategy g point (ecef_to_lla g (fst item)), snd item))
         (filter (\<lambda>item. strategy g (ecef_to_lla g (fst item)) point < radius) tree)"
  by (simp add: query_ball_def fold_emplace_back)

text \<open>
  C5 as stated fails: a stored point at distance zero of the target is within the radius
  zero, and \<open>query_ball\<close> does not return it.
\<close>

theorem query_ball_counterexample:
  "strategy example_system (ecef_to_lla example_system (0, 0, 0)) (0, 0, 0) \<le> 0
     \<and> query_ball example_system [((0, 0, 0), 5::real)] (0, 0, 0) 0 = []"
  by (simp add: query_ball_def example_system_def haversine_def)

text \<open>
  C3.  Inserting the point of longitude and latitude zero with the value \<open>5\<close> and
  inserting it with the value \<open>7\<close> give the same tree, whatever the base class does
  with the Cartesian point it is handed: the value never reaches the tree, while
  \<open>packing\<close> stores the pair of the point and of its value.
\<close>

theorem insert_drops_values:
  "insert_points g base_insert example_coordinates [5::real] tree
      = Inr (base_insert (lla_to_ecef g (0, 0, 0)) tree)
   \<and> insert_points g base_insert example_coordinates [7] tree
      = Inr (base_insert (lla_to_ecef g (0, 0, 0)) tree)
   \<and> packing g example_coordinates [5::real] = Inr [(lla_to_ecef g (0, 0, 0), 5)]"
  by (simp add: insert_points_def insert_dims_def packing_def packing_dims_def
      example_coordinates_def row_point_def)

lemma fold_fill_pair:
  "fold (\<lambda>jx (d, v). (d(jx := a jx), v(jx := b jx))) xs (d, v)
     = (\<lambda>jx. if jx \<in> set xs then a jx else d jx, \<lambda>jx. if jx \<in> set xs then b jx else v jx)"
  by (induction xs arbitrary: d v) (auto simp: fun_eq_iff)

lemma fill_row_cells:
  "fill_row nb k (d, v)
     = (\<lambda>jx. if jx < length nb then fst (nb ! jx) else if jx < k then - 1 else d jx,
        \<lambda>jx. if jx < length nb then snd (nb ! jx) else if jx < k then - 1 else v jx)"
  by (auto simp: fill_row_def fold_fill_pair fun_eq_iff)

lemma fold_rows_pair:
  "distinct xs \<Longrightarrow>
   fold (\<lambda>ix (d, v). (d(ix := fst (F ix (d ix, v ix))), v(ix := snd (F ix (d ix, v ix)))))
     xs (d, v)
     = (\<lambda>ix. if ix \<in> set xs then fst (F ix (d ix, v ix)) else d ix,
        \<lambda>ix. if ix \<in> set xs then snd (F ix (d ix, v ix)) else v ix)"
  by (induction xs arbitrary: d v) (auto simp: fun_eq_iff)

lemma query_dims_rows:
  "query_dims hw g tree (d, v) dims coordinates k within_flag num_threads
     = (\<lambda>ix. if ix < nrows coordinates
              then fst (fill_row ((if within_flag then query_within g tree else query g tree)
                                    (row_point dims coordinates ix) k) k (d ix, v ix))
              else d ix,
        \<lambda>ix. if ix < nrows coordinates
              then snd (fill_row ((if within_flag then query_within g tree else query g tree)
                                    (row_point dims coordinates ix) k) k (d ix, v ix))
              else v ix)"
proof -
  define F where "F = (\<lambda>ix. fill_row ((if within_flag then query_within g tree else query g tree)
                                    (row_point dims coordinates ix) k) k)"
  have w: "query_worker (if within_flag then query_within g tree else query g tree)
             dims coordinates k
           = (\<lambda>start stop. fold (\<lambda>ix (d, v). (d(ix := fst (F ix (d ix, v ix))),
                                               v(ix := snd (F ix (d ix, v ix)))))
                              [start..<stop])"
    by (simp add: query_worker_def F_def Let_def fun_eq_iff)
  have "dispatch hw (query_worker (if within_flag then query_within g tree else query g tree)
             dims coordinates k) (nrows coordinates) num_threads (d, v)
          = (\<lambda>ix. if ix < nrows coordinates then fst (F ix (d ix, v ix)) else d ix,
             \<lambda>ix. if ix < nrows coordinates then snd (F ix (d ix, v ix)) else v ix)"
    unfolding w by (simp add: dispatch_fold fold_rows_pair)
  then show ?thesis
    unfolding F_def query_dims_def .
qed

lemma length_query: "length (query g tree point k) \<le> k"
  by (simp add: query_map nearest_def)

lemma length_query_within: "length (query_within g tree point k) \<le> k"
  by (simp add: query_within_if length_query)

text \<open>
  C10.  For a matrix of targets with two or three columns the vectorized query returns
  its two matrices, and on the row of every target the columns from the number of
  neighbours produced for it (at most \<open>k\<close>; zero for a target rejected by
  \<open>within\<close>) up to \<open>k\<close> hold \<open>-1\<close> in the matrix of distances and in the
  matrix of values, while the columns before hold the neighbours.
\<close>

theorem query_matrix_padding:
  assumes "ncols coordinates = 2 \<or> ncols coordinates = 3"
    and "ix < nrows coordinates"
  shows "\<exists>distance val.
           query_matrix hw g tree fresh coordinates k within_flag num_threads
             = Inr (distance, val)
           \<and> length ((if within_flag then query_within g tree else query g tree)
                        (row_point (ncols coordinates) coordinates ix) k) \<le> k
           \<and> (\<forall>jx. length ((if within_flag then query_within g tree else query g tree)
                               (row_point (ncols coordinates) coordinates ix) k) \<le> jx
                     \<and> jx < k \<longrightarrow> distance ix jx = - 1 \<and> val ix jx = - 1)
           \<and> (\<forall>jx < length ((if within_flag then query_within g tree else query g tree)
                                (row_point (ncols coordinates) coordinates ix) k).
                 distance ix jx
                   = fst ((if within_flag then query_within g tree else query g tree)
                            (row_point (ncols coordinates) coordinates ix) k ! jx)
                 \<and> val ix jx
                   = snd ((if within_flag then query_within g tree else query g tree)
                            (row_point (ncols coordinates) coordinates ix) k ! jx))"
proof -
  obtain d v where fresh: "fresh = (d, v)" by (cases fresh)
  have len: "length ((if within_flag then query_within g tree else query g tree)
                        (row_point (ncols coordinates) coordinates ix) k) \<le> k"
    by (simp add: length_query length_query_within)
  have qm: "query_matrix hw g tree fresh coordinates k within_flag num_threads
          = Inr (query_dims hw g tree (d, v) (ncols coordinates) coordinates k within_flag
                   num_threads)"
    using assms(1) fresh by (auto simp: query_matrix_def)
  show ?thesis
    unfolding qm query_dims_rows fill_row_cells using assms(2) len
    by (auto simp: fill_row_cells)
qed

lemma example_rejected:
  "query_within example_system example_tree (row_point 3 example_targets 1) 4 = []"
  by (simp add: query_within_if in_bounding_box_def nearest_def example_tree_def
      example_system_def comparable_distance_def row_point_def example_targets_def)

theorem query_matrix_padding_witness:
  "ncols example_targets = 3 \<and> 1 < nrows example_targets
     \<and> query_within example_system example_tree (row_point 3 example_targets 1) 4 = []
     \<and> (\<exists>distance val.
           query_matrix 4 example_system example_tree stale example_targets 4 True 0
             = Inr (distance, val)
           \<and> distance 1 0 = - 1 \<and> val 1 0 = - 1 \<and> distance 1 3 = - 1 \<and> val 1 3 = - 1)"
proof -
  have c: "ncols example_targets = 2 \<or> ncols example_targets = 3"
    and c3: "ncols example_targets = 3"
    and r: "1 < nrows example_targets"
    by (simp_all add: example_targets_def)
  from query_matrix_padding [OF c r, of 4 example_system example_tree stale 4 True 0]
  obtain distance val where
    q: "query_matrix 4 example_system example_tree stale example_targets 4 True 0
          = Inr (distance, val)"
    and pad: "\<forall>jx. length (query_within example_system example_tree
                          (row_point 3 example_targets 1) 4) \<le> jx \<and> jx < 4 \<longrightarrow>
                 distance 1 jx = - 1 \<and> val 1 jx = - 1"
    by (auto simp: c3)
  from pad example_rejected have "distance 1 0 = - 1 \<and> val 1 0 = - 1"
    and "distance 1 3 = - 1 \<and> val 1 3 = - 1"
    by simp_all
  with c3 r example_rejected q show ?thesis by blast
qed

end
